theory Spec2Isabelle
  imports Complex_Main
begin

section \<open>Python values the command line interface works on\<close>

text \<open>
  Strings are \<^typ>\<open>string\<close>. The string methods of the Python library that the
  source calls (\<^verbatim>\<open>strip\<close>, \<^verbatim>\<open>lower\<close>, \<^verbatim>\<open>lstrip\<close>,
  \<^verbatim>\<open>replace\<close>, \<^verbatim>\<open>split\<close>, \<^verbatim>\<open>join\<close>) are written out for
  ASCII text: white space is what \<^verbatim>\<open>str.isspace\<close> accepts below code point 128,
  and \<^verbatim>\<open>lower\<close> maps \<^verbatim>\<open>A-Z\<close> to \<^verbatim>\<open>a-z\<close>.
\<close>

definition is_space :: "char \<Rightarrow> bool" where
  "is_space c = (of_char c \<in> {9, 10, 11, 12, 13, 28, 29, 30, 31, 32 :: nat})"

definition strip :: "string \<Rightarrow> string" where
  "strip s = rev (dropWhile is_space (rev (dropWhile is_space s)))"

definition lower_char :: "char \<Rightarrow> char" where
  "lower_char c =
     (let n = (of_char c :: nat) in if 65 \<le> n \<and> n \<le> 90 then char_of (n + 32) else c)"

definition lower :: "string \<Rightarrow> string" where
  "lower s = map lower_char s"

definition lstrip_char :: "char \<Rightarrow> string \<Rightarrow> string" where
  "lstrip_char c s = dropWhile (\<lambda>d. d = c) s"

definition replace_char :: "char \<Rightarrow> char \<Rightarrow> string \<Rightarrow> string" where
  "replace_char old new s = map (\<lambda>d. if d = old then new else d) s"

fun join :: "string \<Rightarrow> string list \<Rightarrow> string" where
  "join sep [] = []"
| "join sep [t] = t"
| "join sep (t # u # ts) = t @ sep @ join sep (u # ts)"

fun split_char :: "char \<Rightarrow> string \<Rightarrow> string list" where
  "split_char c [] = [[]]"
| "split_char c (d # ds) =
     (if d = c then [] # split_char c ds
      else (case split_char c ds of
              [] \<Rightarrow> [[d]]
            | t # ts \<Rightarrow> (d # t) # ts))"

text \<open>
  \<^verbatim>\<open>int(s)\<close> on ASCII text: surrounding white space is dropped, one sign is
  allowed, and the digits may be grouped by single underscores. Anything else raises
  \<^verbatim>\<open>ValueError\<close>, which is \<^const>\<open>None\<close> here.
\<close>

definition is_digit :: "char \<Rightarrow> bool" where
  "is_digit c = (48 \<le> (of_char c :: nat) \<and> (of_char c :: nat) \<le> 57)"

definition digit_val :: "char \<Rightarrow> int" where
  "digit_val c = int (of_char c) - 48"

fun digits_ok :: "string \<Rightarrow> bool" where
  "digits_ok [] = False"
| "digits_ok [c] = is_digit c"
| "digits_ok (c # d # ds) =
     (if is_digit c then (if d = CHR ''_'' then digits_ok ds else digits_ok (d # ds))
      else False)"

definition digits_value :: "string \<Rightarrow> int" where
  "digits_value s = foldl (\<lambda>acc c. 10 * acc + digit_val c) 0 (filter is_digit s)"

definition py_int :: "string \<Rightarrow> int option" where
  "py_int s =
     (case strip s of
        [] \<Rightarrow> None
      | c # cs \<Rightarrow>
          if c = CHR ''-'' then (if digits_ok cs then Some (- digits_value cs) else None)
          else if c = CHR ''+'' then (if digits_ok cs then Some (digits_value cs) else None)
          else if digits_ok (c # cs) then Some (digits_value (c # cs)) else None)"

text \<open>
  A Python \<^verbatim>\<open>float\<close> is a finite value, an infinity or not-a-number. A finite
  value is recorded by the rational number it stands for, and a literal of the source by
  the exact value of the double it denotes. Only the comparison \<^verbatim>\<open><=\<close> is used by
  the code; it is false whenever an operand is not-a-number.
\<close>

datatype pyfloat = Finite rat | PosInf | NegInf | NaN

fun float_le :: "pyfloat \<Rightarrow> pyfloat \<Rightarrow> bool" where
  "float_le NaN y = False"
| "float_le x NaN = False"
| "float_le NegInf y = True"
| "float_le x PosInf = True"
| "float_le (Finite a) (Finite b) = (a \<le> b)"
| "float_le PosInf y = False"
| "float_le x NegInf = False"

definition lit_0_0 :: pyfloat where "lit_0_0 = Finite 0"
definition lit_1_0 :: pyfloat where "lit_1_0 = Finite 1"
definition lit_5_0 :: pyfloat where "lit_5_0 = Finite 5"
definition lit_10_0 :: pyfloat where "lit_10_0 = Finite 10"
definition lit_0_01 :: pyfloat where
  "lit_0_01 = Finite (5764607523034235 / 576460752303423488)"
definition lit_0_99 :: pyfloat where
  "lit_0_99 = Finite (4458563631096791 / 4503599627370496)"
definition lit_0_6 :: pyfloat where
  "lit_0_6 = Finite (5404319552844595 / 9007199254740992)"
definition lit_0_7 :: pyfloat where
  "lit_0_7 = Finite (3152519739159347 / 4503599627370496)"

text \<open>The values a setter can store in an attribute of the argument namespace.\<close>

datatype pyval = PyNone | PyStr string | PyInt int | PyFloat pyfloat | PyBool bool

datatype cli_error = ValueError string | ParserError string

section \<open>parser.py\<close>

text \<open>
  The namespace that \<^verbatim>\<open>build_parser\<close> produces, one field per argument, with the
  type that \<^verbatim>\<open>argparse\<close> gives it. An argument without a default is
  \<^verbatim>\<open>None\<close> until it is set.
\<close>

record args =
  prompt :: "string option"
  interactive :: bool
  output' :: string
  request_json :: "string option"
  request_json_stdin :: bool
  model :: string
  size' :: string
  steps :: int
  scale :: pyfloat
  sampler :: string
  seed :: "int option"
  quality :: bool
  uc_preset :: string
  negative_prompt :: "string option"
  reference :: "string option"
  ref_type :: string
  ref_fidelity :: pyfloat
  ref_strength :: pyfloat
  character_prompt :: "string option"
  controlnet :: "string option"
  controlnet_strength :: pyfloat
  image' :: "string option"
  strength :: pyfloat
  n_images :: int
  noise :: pyfloat
  stream :: bool
  stream_dir :: string

text \<open>
  constants.py takes the model, sampler and preset names from modules of the package that
  are not part of the command line interface; they are parameters here.
\<close>

record cli_constants =
  MODEL_CHOICES :: "string list"
  SAMPLER_CHOICES :: "string list"
  UC_PRESET_CHOICES :: "string list"
  DEFAULT_MODEL :: string
  DEFAULT_SAMPLER :: string
  DEFAULT_UC_PRESET :: string

definition REF_TYPE_CHOICES :: "string list" where
  "REF_TYPE_CHOICES = [''character'', ''style'', ''character&style'']"

text \<open>\<^verbatim>\<open>parser.parse_args([])\<close>: every argument at its default.\<close>

definition parser_defaults :: "cli_constants \<Rightarrow> args" where
  "parser_defaults C =
     \<lparr> prompt = None, interactive = False, output' = ''output'',
       request_json = None, request_json_stdin = False,
       model = DEFAULT_MODEL C, size' = ''portrait'', steps = 23, scale = lit_5_0,
       sampler = DEFAULT_SAMPLER C, seed = None, quality = True,
       uc_preset = DEFAULT_UC_PRESET C, negative_prompt = None,
       reference = None, ref_type = ''character&style'',
       ref_fidelity = lit_1_0, ref_strength = lit_1_0,
       character_prompt = None, controlnet = None, controlnet_strength = lit_0_6,
       image' = None, strength = lit_0_7, n_images = 1, noise = lit_0_0,
       stream = False, stream_dir = ''streaming_output'' \<rparr>"

text \<open>
  The message of \<^verbatim>\<open>_validate_range\<close> formats its two bounds; the model keeps the
  name and the words and leaves the numbers out. The messages of the failing casts
  \<^verbatim>\<open>int\<close> and \<^verbatim>\<open>float\<close> are shortened in the same way.
\<close>

definition validate_range :: "pyfloat \<Rightarrow> pyfloat \<Rightarrow> pyfloat \<Rightarrow> string \<Rightarrow> cli_error + pyfloat" where
  "validate_range value min_value max_value name =
     (if \<not> (float_le min_value value \<and> float_le value max_value)
      then Inl (ValueError (name @ '' must be between''))
      else Inr value)"

definition parse_bool_value :: "string \<Rightarrow> cli_error + bool" where
  "parse_bool_value value =
     (let normalized = lower (strip value) in
      if normalized \<in> set [''1'', ''true'', ''yes'', ''y'', ''on''] then Inr True
      else if normalized \<in> set [''0'', ''false'', ''no'', ''n'', ''off''] then Inr False
      else Inl (ValueError ''expected boolean (true/false)''))"

definition parse_seed_value :: "string \<Rightarrow> cli_error + int option" where
  "parse_seed_value value =
     (let normalized = lower (strip value) in
      if normalized \<in> set [''none'', ''null'', ''random''] then Inr None
      else (case py_int value of
              None \<Rightarrow> Inl (ValueError ''invalid literal for int()'')
            | Some n \<Rightarrow> Inr (Some n)))"

text \<open>
  The body of the \<^verbatim>\<open>try\<close> in \<^verbatim>\<open>validate_args\<close>: the first failing check
  raises, in the order of the source; \<open>and_then r k\<close> goes on with \<open>k\<close> when
  \<open>r\<close> did not raise.
\<close>

definition and_then :: "cli_error + 'a \<Rightarrow> (cli_error + 'b) \<Rightarrow> cli_error + 'b" where
  "and_then r k = (case r of Inl e \<Rightarrow> Inl e | Inr v \<Rightarrow> k)"

definition range_checks :: "args \<Rightarrow> cli_error + unit" where
  "range_checks a =
     (if steps a < 1 then Inl (ValueError ''steps must be >= 1'')
      else if steps a > 50 then Inl (ValueError ''steps must be <= 50'')
      else if n_images a < 1 then Inl (ValueError ''n-images must be >= 1'')
      else if n_images a > 8 then Inl (ValueError ''n-images must be <= 8'')
      else
        and_then (validate_range (scale a) lit_0_0 lit_10_0 ''scale'')
       (and_then (validate_range (ref_fidelity a) lit_0_0 lit_1_0 ''ref-fidelity'')
       (and_then (validate_range (ref_strength a) lit_0_0 lit_1_0 ''ref-strength'')
       (and_then (validate_range (controlnet_strength a) lit_0_01 lit_1_0 ''controlnet-strength'')
       (and_then (validate_range (strength a) lit_0_01 lit_0_99 ''strength'')
       (and_then (validate_range (noise a) lit_0_0 lit_0_99 ''noise'')
       (Inr ())))))))"

text \<open>
  \<^verbatim>\<open>validate_args\<close>: in interactive mode the \<^verbatim>\<open>ValueError\<close> is raised again,
  otherwise \<^verbatim>\<open>parser.error\<close> ends the process.
\<close>

definition validate_args :: "args \<Rightarrow> bool \<Rightarrow> cli_error + unit" where
  "validate_args a in_interactive =
     (case range_checks a of
        Inr u \<Rightarrow> Inr u
      | Inl (ValueError m) \<Rightarrow> if in_interactive then Inl (ValueError m) else Inl (ParserError m)
      | Inl e \<Rightarrow> Inl e)"

text \<open>
  \<^verbatim>\<open>parse_size\<close>: a string with an \<^verbatim>\<open>x\<close> must split into exactly two integers;
  otherwise the function reports the format and leaves with \<^verbatim>\<open>sys.exit(1)\<close>.
\<close>

datatype size_value = Preset string | Explicit int int

datatype exit_status = SystemExit nat

definition parse_size :: "string \<Rightarrow> exit_status + size_value" where
  "parse_size size_str =
     (if CHR ''x'' \<in> set size_str then
        (case split_char (CHR ''x'') size_str of
           [w, h] \<Rightarrow>
             (case py_int w of
                None \<Rightarrow> Inl (SystemExit 1)
              | Some width \<Rightarrow>
                  (case py_int h of
                     None \<Rightarrow> Inl (SystemExit 1)
                   | Some height \<Rightarrow> Inr (Explicit width height)))
         | _ \<Rightarrow> Inl (SystemExit 1))
      else Inr (Preset size_str))"

section \<open>interactive.py\<close>

text \<open>
  The source reads and writes the namespace through \<^verbatim>\<open>getattr\<close> and
  \<^verbatim>\<open>setattr\<close> with an attribute name. \<open>attr\<close> lists the attributes the
  namespace gets from the parser (the attributes every Python object has are left out),
  \<open>attr_of_name\<close> is \<^verbatim>\<open>hasattr\<close>, and a value is stored in
  its field when it has the field's type (every cast of the setter table yields the type
  of its attribute).
\<close>

datatype attr =
    A_prompt
  | A_interactive
  | A_output
  | A_request_json
  | A_request_json_stdin
  | A_model
  | A_size
  | A_steps
  | A_scale
  | A_sampler
  | A_seed
  | A_quality
  | A_uc_preset
  | A_negative_prompt
  | A_reference
  | A_ref_type
  | A_ref_fidelity
  | A_ref_strength
  | A_character_prompt
  | A_controlnet
  | A_controlnet_strength
  | A_image
  | A_strength
  | A_n_images
  | A_noise
  | A_stream
  | A_stream_dir

definition attr_names :: "(string \<times> attr) list" where
  "attr_names =
     [(''prompt'', A_prompt),
      (''interactive'', A_interactive),
      (''output'', A_output),
      (''request_json'', A_request_json),
      (''request_json_stdin'', A_request_json_stdin),
      (''model'', A_model),
      (''size'', A_size),
      (''steps'', A_steps),
      (''scale'', A_scale),
      (''sampler'', A_sampler),
      (''seed'', A_seed),
      (''quality'', A_quality),
      (''uc_preset'', A_uc_preset),
      (''negative_prompt'', A_negative_prompt),
      (''reference'', A_reference),
      (''ref_type'', A_ref_type),
      (''ref_fidelity'', A_ref_fidelity),
      (''ref_strength'', A_ref_strength),
      (''character_prompt'', A_character_prompt),
      (''controlnet'', A_controlnet),
      (''controlnet_strength'', A_controlnet_strength),
      (''image'', A_image),
      (''strength'', A_strength),
      (''n_images'', A_n_images),
      (''noise'', A_noise),
      (''stream'', A_stream),
      (''stream_dir'', A_stream_dir)]"

definition attr_of_name :: "string \<Rightarrow> attr option" where
  "attr_of_name name = map_of attr_names name"

fun getattr_args :: "args \<Rightarrow> attr \<Rightarrow> pyval" where
  "getattr_args a A_prompt = (case prompt a of None \<Rightarrow> PyNone | Some v \<Rightarrow> PyStr v)"
| "getattr_args a A_interactive = PyBool (interactive a)"
| "getattr_args a A_output = PyStr (output' a)"
| "getattr_args a A_request_json = (case request_json a of None \<Rightarrow> PyNone | Some v \<Rightarrow> PyStr v)"
| "getattr_args a A_request_json_stdin = PyBool (request_json_stdin a)"
| "getattr_args a A_model = PyStr (model a)"
| "getattr_args a A_size = PyStr (size' a)"
| "getattr_args a A_steps = PyInt (steps a)"
| "getattr_args a A_scale = PyFloat (scale a)"
| "getattr_args a A_sampler = PyStr (sampler a)"
| "getattr_args a A_seed = (case seed a of None \<Rightarrow> PyNone | Some v \<Rightarrow> PyInt v)"
| "getattr_args a A_quality = PyBool (quality a)"
| "getattr_args a A_uc_preset = PyStr (uc_preset a)"
| "getattr_args a A_negative_prompt = (case negative_prompt a of None \<Rightarrow> PyNone | Some v \<Rightarrow> PyStr v)"
| "getattr_args a A_reference = (case reference a of None \<Rightarrow> PyNone | Some v \<Rightarrow> PyStr v)"
| "getattr_args a A_ref_type = PyStr (ref_type a)"
| "getattr_args a A_ref_fidelity = PyFloat (ref_fidelity a)"
| "getattr_args a A_ref_strength = PyFloat (ref_strength a)"
| "getattr_args a A_character_prompt = (case character_prompt a of None \<Rightarrow> PyNone | Some v \<Rightarrow> PyStr v)"
| "getattr_args a A_controlnet = (case controlnet a of None \<Rightarrow> PyNone | Some v \<Rightarrow> PyStr v)"
| "getattr_args a A_controlnet_strength = PyFloat (controlnet_strength a)"
| "getattr_args a A_image = (case image' a of None \<Rightarrow> PyNone | Some v \<Rightarrow> PyStr v)"
| "getattr_args a A_strength = PyFloat (strength a)"
| "getattr_args a A_n_images = PyInt (n_images a)"
| "getattr_args a A_noise = PyFloat (noise a)"
| "getattr_args a A_stream = PyBool (stream a)"
| "getattr_args a A_stream_dir = PyStr (stream_dir a)"

fun setattr_args :: "args \<Rightarrow> attr \<Rightarrow> pyval \<Rightarrow> args" where
  "setattr_args a A_prompt v =
     (case v of PyNone \<Rightarrow> a\<lparr>prompt := None\<rparr> | PyStr x \<Rightarrow> a\<lparr>prompt := Some x\<rparr> | _ \<Rightarrow> a)"
| "setattr_args a A_interactive v =
     (case v of PyBool x \<Rightarrow> a\<lparr>interactive := x\<rparr> | _ \<Rightarrow> a)"
| "setattr_args a A_output v =
     (case v of PyStr x \<Rightarrow> a\<lparr>output' := x\<rparr> | _ \<Rightarrow> a)"
| "setattr_args a A_request_json v =
     (case v of PyNone \<Rightarrow> a\<lparr>request_json := None\<rparr> | PyStr x \<Rightarrow> a\<lparr>request_json := Some x\<rparr> | _ \<Rightarrow> a)"
| "setattr_args a A_request_json_stdin v =
     (case v of PyBool x \<Rightarrow> a\<lparr>request_json_stdin := x\<rparr> | _ \<Rightarrow> a)"
| "setattr_args a A_model v =
     (case v of PyStr x \<Rightarrow> a\<lparr>model := x\<rparr> | _ \<Rightarrow> a)"
| "setattr_args a A_size v =
     (case v of PyStr x \<Rightarrow> a\<lparr>size' := x\<rparr> | _ \<Rightarrow> a)"
| "setattr_args a A_steps v =
     (case v of PyInt x \<Rightarrow> a\<lparr>steps := x\<rparr> | _ \<Rightarrow> a)"
| "setattr_args a A_scale v =
     (case v of PyFloat x \<Rightarrow> a\<lparr>scale := x\<rparr> | _ \<Rightarrow> a)"
| "setattr_args a A_sampler v =
     (case v of PyStr x \<Rightarrow> a\<lparr>sampler := x\<rparr> | _ \<Rightarrow> a)"
| "setattr_args a A_seed v =
     (case v of PyNone \<Rightarrow> a\<lparr>seed := None\<rparr> | PyInt x \<Rightarrow> a\<lparr>seed := Some x\<rparr> | _ \<Rightarrow> a)"
| "setattr_args a A_quality v =
     (case v of PyBool x \<Rightarrow> a\<lparr>quality := x\<rparr> | _ \<Rightarrow> a)"
| "setattr_args a A_uc_preset v =
     (case v of PyStr x \<Rightarrow> a\<lparr>uc_preset := x\<rparr> | _ \<Rightarrow> a)"
| "setattr_args a A_negative_prompt v =
     (case v of PyNone \<Rightarrow> a\<lparr>negative_prompt := None\<rparr> | PyStr x \<Rightarrow> a\<lparr>negative_prompt := Some x\<rparr> | _ \<Rightarrow> a)"
| "setattr_args a A_reference v =
     (case v of PyNone \<Rightarrow> a\<lparr>reference := None\<rparr> | PyStr x \<Rightarrow> a\<lparr>reference := Some x\<rparr> | _ \<Rightarrow> a)"
| "setattr_args a A_ref_type v =
     (case v of PyStr x \<Rightarrow> a\<lparr>ref_type := x\<rparr> | _ \<Rightarrow> a)"
| "setattr_args a A_ref_fidelity v =
     (case v of PyFloat x \<Rightarrow> a\<lparr>ref_fidelity := x\<rparr> | _ \<Rightarrow> a)"
| "setattr_args a A_ref_strength v =
     (case v of PyFloat x \<Rightarrow> a\<lparr>ref_strength := x\<rparr> | _ \<Rightarrow> a)"
| "setattr_args a A_character_prompt v =
     (case v of PyNone \<Rightarrow> a\<lparr>character_prompt := None\<rparr> | PyStr x \<Rightarrow> a\<lparr>character_prompt := Some x\<rparr> | _ \<Rightarrow> a)"
| "setattr_args a A_controlnet v =
     (case v of PyNone \<Rightarrow> a\<lparr>controlnet := None\<rparr> | PyStr x \<Rightarrow> a\<lparr>controlnet := Some x\<rparr> | _ \<Rightarrow> a)"
| "setattr_args a A_controlnet_strength v =
     (case v of PyFloat x \<Rightarrow> a\<lparr>controlnet_strength := x\<rparr> | _ \<Rightarrow> a)"
| "setattr_args a A_image v =
     (case v of PyNone \<Rightarrow> a\<lparr>image' := None\<rparr> | PyStr x \<Rightarrow> a\<lparr>image' := Some x\<rparr> | _ \<Rightarrow> a)"
| "setattr_args a A_strength v =
     (case v of PyFloat x \<Rightarrow> a\<lparr>strength := x\<rparr> | _ \<Rightarrow> a)"
| "setattr_args a A_n_images v =
     (case v of PyInt x \<Rightarrow> a\<lparr>n_images := x\<rparr> | _ \<Rightarrow> a)"
| "setattr_args a A_noise v =
     (case v of PyFloat x \<Rightarrow> a\<lparr>noise := x\<rparr> | _ \<Rightarrow> a)"
| "setattr_args a A_stream v =
     (case v of PyBool x \<Rightarrow> a\<lparr>stream := x\<rparr> | _ \<Rightarrow> a)"
| "setattr_args a A_stream_dir v =
     (case v of PyStr x \<Rightarrow> a\<lparr>stream_dir := x\<rparr> | _ \<Rightarrow> a)"

definition KEY_ALIASES :: "(string \<times> string) list" where
  "KEY_ALIASES =
     [(''m'', ''model''), (''model'', ''model''),
      (''res'', ''size''), (''resolution'', ''size''), (''size'', ''size''),
      (''st'', ''steps''), (''steps'', ''steps''),
      (''cfg'', ''scale''), (''scale'', ''scale''),
      (''sp'', ''sampler''), (''sampler'', ''sampler'')]"

text \<open>
  The casts of the setter table. \<^verbatim>\<open>float(s)\<close> rounds a decimal text to a double;
  the model takes it as the parameter \<open>pf\<close>, \<^const>\<open>None\<close> where it raises.
\<close>

definition cast_str :: "string \<Rightarrow> cli_error + pyval" where
  "cast_str v = Inr (PyStr v)"

definition cast_int :: "string \<Rightarrow> cli_error + pyval" where
  "cast_int v =
     (case py_int v of
        None \<Rightarrow> Inl (ValueError ''invalid literal for int()'')
      | Some n \<Rightarrow> Inr (PyInt n))"

definition cast_float :: "(string \<Rightarrow> pyfloat option) \<Rightarrow> string \<Rightarrow> cli_error + pyval" where
  "cast_float pf v =
     (case pf v of
        None \<Rightarrow> Inl (ValueError ''could not convert string to float'')
      | Some x \<Rightarrow> Inr (PyFloat x))"

definition cast_seed :: "string \<Rightarrow> cli_error + pyval" where
  "cast_seed v =
     (case parse_seed_value v of
        Inl e \<Rightarrow> Inl e
      | Inr None \<Rightarrow> Inr PyNone
      | Inr (Some n) \<Rightarrow> Inr (PyInt n))"

definition cast_bool :: "string \<Rightarrow> cli_error + pyval" where
  "cast_bool v =
     (case parse_bool_value v of
        Inl e \<Rightarrow> Inl e
      | Inr b \<Rightarrow> Inr (PyBool b))"

definition interactive_setters ::
  "(string \<Rightarrow> pyfloat option) \<Rightarrow> (string \<times> attr \<times> (string \<Rightarrow> cli_error + pyval)) list" where
  "interactive_setters pf =
     [(''model'', A_model, cast_str),
      (''size'', A_size, cast_str),
      (''steps'', A_steps, cast_int),
      (''scale'', A_scale, cast_float pf),
      (''sampler'', A_sampler, cast_str),
      (''seed'', A_seed, cast_seed),
      (''quality'', A_quality, cast_bool),
      (''uc-preset'', A_uc_preset, cast_str),
      (''negative-prompt'', A_negative_prompt, cast_str),
      (''reference'', A_reference, cast_str),
      (''ref-type'', A_ref_type, cast_str),
      (''ref-fidelity'', A_ref_fidelity, cast_float pf),
      (''ref-strength'', A_ref_strength, cast_float pf),
      (''character-prompt'', A_character_prompt, cast_str),
      (''controlnet'', A_controlnet, cast_str),
      (''controlnet-strength'', A_controlnet_strength, cast_float pf),
      (''image'', A_image, cast_str),
      (''strength'', A_strength, cast_float pf),
      (''n-images'', A_n_images, cast_int),
      (''noise'', A_noise, cast_float pf),
      (''output'', A_output, cast_str),
      (''stream'', A_stream, cast_bool),
      (''stream-dir'', A_stream_dir, cast_str)]"

definition normalize_set_key :: "string \<Rightarrow> string" where
  "normalize_set_key key =
     (let key = lower (strip key) in
      case map_of KEY_ALIASES key of None \<Rightarrow> key | Some k \<Rightarrow> k)"

definition optional_null_keys :: "string list" where
  "optional_null_keys =
     [''seed'', ''negative_prompt'', ''reference'', ''character_prompt'', ''controlnet'', ''image'']"

text \<open>
  \<^verbatim>\<open>_normalize_unset_value\<close> is called after \<^verbatim>\<open>hasattr\<close> has accepted the
  key: \<open>key\<close> is the attribute's name and \<open>atr\<close> the attribute.
\<close>

definition normalize_unset_value :: "string \<Rightarrow> attr \<Rightarrow> args \<Rightarrow> pyval" where
  "normalize_unset_value key atr defaults =
     (if key \<in> set optional_null_keys then PyNone else getattr_args defaults atr)"

text \<open>
  What \<^verbatim>\<open>_apply_interactive_set\<close> tells the user, one constructor per
  \<^verbatim>\<open>warn\<close> or \<^verbatim>\<open>success\<close> of the source: unknown key, failed cast, value
  rejected by \<^verbatim>\<open>validate_args\<close>, value outside the choices, update.
\<close>

datatype set_outcome =
    UnknownKey string
  | InvalidValue string cli_error
  | RejectedValue string string
  | InvalidChoice string
  | Updated string pyval
  | Uncaught cli_error

definition apply_interactive_set ::
  "cli_constants \<Rightarrow> (string \<Rightarrow> pyfloat option) \<Rightarrow> args \<Rightarrow> args \<Rightarrow> string \<Rightarrow> string
     \<Rightarrow> set_outcome \<times> args" where
  "apply_interactive_set C pf a defaults key value =
     (case map_of (interactive_setters pf) key of
        None \<Rightarrow> (UnknownKey key, a)
      | Some (atr, cast_fn) \<Rightarrow>
          (let old_value = getattr_args a atr in
           case cast_fn value of
             Inl exc \<Rightarrow> (InvalidValue key exc, a)
           | Inr new_value \<Rightarrow>
               (let a1 = setattr_args a atr new_value in
                case validate_args a1 True of
                  Inl (ValueError m) \<Rightarrow> (RejectedValue key value, setattr_args a1 atr old_value)
                | Inl e \<Rightarrow> (Uncaught e, a1)
                | Inr u \<Rightarrow>
                    if key = ''model'' \<and> model a1 \<notin> set (MODEL_CHOICES C)
                    then (InvalidChoice key, setattr_args a1 atr old_value)
                    else if key = ''sampler'' \<and> sampler a1 \<notin> set (SAMPLER_CHOICES C)
                    then (InvalidChoice key, setattr_args a1 atr old_value)
                    else if key = ''uc-preset'' \<and> uc_preset a1 \<notin> set (UC_PRESET_CHOICES C)
                    then (InvalidChoice key, setattr_args a1 atr old_value)
                    else if key = ''ref-type'' \<and> ref_type a1 \<notin> set REF_TYPE_CHOICES
                    then (InvalidChoice key, setattr_args a1 atr old_value)
                    else
                      (let a2 = (if key = ''reference'' \<and> new_value = PyNone
                                 then a1\<lparr>ref_type := ref_type defaults,
                                         ref_fidelity := ref_fidelity defaults,
                                         ref_strength := ref_strength defaults\<rparr>
                                 else a1);
                           a3 = (if key = ''controlnet'' \<and> new_value = PyNone
                                 then a2\<lparr>controlnet_strength := controlnet_strength defaults\<rparr>
                                 else a2);
                           a4 = (if key = ''image'' \<and> new_value = PyNone
                                 then a3\<lparr>strength := strength defaults, noise := noise defaults\<rparr>
                                 else a3)
                       in (Updated key new_value, a4)))))"

text \<open>
  One command line of \<^verbatim>\<open>interactive_loop\<close>, after \<^verbatim>\<open>shlex.split\<close> has
  cut it into tokens (the line starts with \<^verbatim>\<open>/\<close>, so there is a first token). The
  result says what the loop did and gives the namespace it goes on with.
\<close>

datatype command_outcome =
    Quit
  | HelpShown
  | StatusShown
  | SetUsage
  | SetDone set_outcome
  | ShortShown string
  | UnsetUsage
  | UnsetUnknownKey string
  | UnsetDone string
  | UnknownCommand string

definition interactive_command ::
  "cli_constants \<Rightarrow> (string \<Rightarrow> pyfloat option) \<Rightarrow> args \<Rightarrow> args \<Rightarrow> string list
     \<Rightarrow> command_outcome \<times> args" where
  "interactive_command C pf a defaults tokens =
     (case tokens of
        [] \<Rightarrow> (UnknownCommand [], a)
      | tok0 # rest \<Rightarrow>
          (let command = lower tok0;
               command_key = normalize_set_key (lstrip_char (CHR ''/'') command)
           in
           if command \<in> set [''/quit'', ''/exit''] then (Quit, a)
           else if command = ''/help'' then (HelpShown, a)
           else if command = ''/show'' then (StatusShown, a)
           else if command = ''/set'' then
             (if length tokens < 3 then (SetUsage, a)
              else
                (let key = normalize_set_key (tokens ! 1);
                     value = join '' '' (drop 2 tokens);
                     r = apply_interactive_set C pf a defaults key value
                 in (SetDone (fst r), snd r)))
           else if command_key \<in> set [''model'', ''size'', ''steps'', ''scale'', ''sampler''] then
             (if length tokens = 1 then (ShortShown command_key, a)
              else
                (let value = join '' '' (drop 1 tokens);
                     r = apply_interactive_set C pf a defaults command_key value
                 in (SetDone (fst r), snd r)))
           else if command = ''/unset'' then
             (if length tokens \<noteq> 2 then (UnsetUsage, a)
              else
                (let key = replace_char (CHR ''-'') (CHR ''_'') (normalize_set_key (tokens ! 1))
                 in case attr_of_name key of
                      None \<Rightarrow> (UnsetUnknownKey (tokens ! 1), a)
                    | Some atr \<Rightarrow>
                        (UnsetDone (tokens ! 1),
                         setattr_args a atr (normalize_unset_value key atr defaults))))
           else (UnknownCommand tok0, a)))"

text \<open>A session of \<^verbatim>\<open>/set key value\<close> lines, run from the namespace \<open>a\<close>.\<close>

definition set_line :: "string \<times> string \<Rightarrow> string list" where
  "set_line kv = [''/set'', fst kv, snd kv]"

definition run_set_lines ::
  "cli_constants \<Rightarrow> (string \<Rightarrow> pyfloat option) \<Rightarrow> args \<Rightarrow> args \<Rightarrow> (string \<times> string) list
     \<Rightarrow> args" where
  "run_set_lines C pf defaults a kvs =
     foldl (\<lambda>s kv. snd (interactive_command C pf s defaults (set_line kv))) a kvs"

text \<open>
  The state the claims call valid: the range checks of \<^verbatim>\<open>validate_args\<close> pass and
  the four enumerated settings are among their choices.
\<close>

definition choices_ok :: "cli_constants \<Rightarrow> args \<Rightarrow> bool" where
  "choices_ok C a =
     (model a \<in> set (MODEL_CHOICES C) \<and> sampler a \<in> set (SAMPLER_CHOICES C) \<and>
      uc_preset a \<in> set (UC_PRESET_CHOICES C) \<and> ref_type a \<in> set REF_TYPE_CHOICES)"

text \<open>Constants for the worked examples; the model names are those of \<^verbatim>\<open>MODEL_LABELS\<close>.\<close>

definition MODEL_LABELS :: "(string \<times> string) list" where
  "MODEL_LABELS =
     [(''nai-diffusion-4-5-full'', ''v4.5-full''),
      (''nai-diffusion-4-5-curated'', ''v4.5-curated''),
      (''nai-diffusion-4-full'', ''v4-full''),
      (''nai-diffusion-4-curated'', ''v4-curated''),
      (''nai-diffusion-3'', ''v3''),
      (''nai-diffusion-3-furry'', ''v3-furry'')]"

definition example_constants :: cli_constants where
  "example_constants =
     \<lparr> MODEL_CHOICES = map fst MODEL_LABELS,
       SAMPLER_CHOICES = [''k_euler_ancestral'', ''k_euler''],
       UC_PRESET_CHOICES = [''light'', ''heavy''],
       DEFAULT_MODEL = ''nai-diffusion-4-5-full'',
       DEFAULT_SAMPLER = ''k_euler_ancestral'',
       DEFAULT_UC_PRESET = ''light'' \<rparr>"

text \<open>\<^verbatim>\<open>float\<close> on the few texts the worked examples use.\<close>

definition example_float :: "string \<Rightarrow> pyfloat option" where
  "example_float s =
     map_of [(''nan'', NaN), (''inf'', PosInf), (''6.0'', Finite 6), (''0.5'', Finite (1 / 2))] s"

section \<open>Library functions used by generation.py\<close>

subsection \<open>pathlib\<close>

text \<open>
  A \<^verbatim>\<open>PurePosixPath\<close>: the root (empty, \<^verbatim>\<open>/\<close> or \<^verbatim>\<open>//\<close>) and the
  components after it. Parsing drops empty components and \<^verbatim>\<open>.\<close>; exactly two
  leading slashes are kept as the root \<^verbatim>\<open>//\<close>.
\<close>

record path =
  path_root :: string
  path_parts :: "string list"

definition parse_path :: "string \<Rightarrow> path" where
  "parse_path s =
     (let lead = length (takeWhile (\<lambda>c. c = CHR ''/'') s);
          rest = dropWhile (\<lambda>c. c = CHR ''/'') s
      in \<lparr> path_root = (if lead = 0 then [] else if lead = 2 then ''//'' else ''/''),
           path_parts = filter (\<lambda>x. x \<noteq> [] \<and> x \<noteq> ''.'') (split_char (CHR ''/'') rest) \<rparr>)"

definition path_str :: "path \<Rightarrow> string" where
  "path_str p =
     (if path_root p = [] \<and> path_parts p = [] then ''.'' else path_root p @ join ''/'' (path_parts p))"

definition path_name :: "path \<Rightarrow> string" where
  "path_name p = (if path_parts p = [] then [] else last (path_parts p))"

text \<open>\<^verbatim>\<open>str.rfind\<close> of a character: the last index where it occurs.\<close>

definition rfind_char :: "char \<Rightarrow> string \<Rightarrow> nat option" where
  "rfind_char c s =
     (case filter (\<lambda>i. s ! i = c) (rev [0 ..< length s]) of [] \<Rightarrow> None | i # _ \<Rightarrow> Some i)"

definition path_suffix :: "path \<Rightarrow> string" where
  "path_suffix p =
     (let name = path_name p in
      case rfind_char (CHR ''.'') name of
        None \<Rightarrow> []
      | Some i \<Rightarrow> if 0 < i \<and> i + 1 < length name then drop i name else [])"

definition path_parent :: "path \<Rightarrow> path" where
  "path_parent p = p\<lparr>path_parts := butlast (path_parts p)\<rparr>"

definition path_join :: "path \<Rightarrow> string \<Rightarrow> path" where
  "path_join p key =
     (let q = parse_path key in
      if path_root q \<noteq> [] then q else p\<lparr>path_parts := path_parts p @ path_parts q\<rparr>)"

subsection \<open>Formatting a counter with \<^verbatim>\<open>:04d\<close>\<close>

definition digit_char :: "nat \<Rightarrow> char" where
  "digit_char d = char_of (48 + d)"

fun decimal :: "nat \<Rightarrow> string" where
  "decimal n = (if n < 10 then [digit_char n] else decimal (n div 10) @ [digit_char (n mod 10)])"

declare decimal.simps [simp del]

definition format_04d :: "nat \<Rightarrow> string" where
  "format_04d n = (let d = decimal n in replicate (4 - length d) (CHR ''0'') @ d)"

subsection \<open>base64.b64decode\<close>

text \<open>
  \<^verbatim>\<open>b64decode\<close> without validation, as \<^verbatim>\<open>binascii.a2b_base64\<close> computes it:
  characters outside the alphabet are skipped, a completed padding ends the input, and
  data that stops inside a group of four raises \<^verbatim>\<open>binascii.Error\<close>. Bytes are
  numbers below 256.
\<close>

definition b64_value :: "char \<Rightarrow> nat option" where
  "b64_value c =
     (let n = (of_char c :: nat) in
      if 65 \<le> n \<and> n \<le> 90 then Some (n - 65)
      else if 97 \<le> n \<and> n \<le> 122 then Some (n - 71)
      else if 48 \<le> n \<and> n \<le> 57 then Some (n + 4)
      else if c = CHR ''+'' then Some 62
      else if c = CHR ''/'' then Some 63
      else None)"

datatype py_exception =
    ValidationError "string list"
  | BinasciiError string
  | RuntimeError string
  | OtherError string

definition emit :: "nat \<Rightarrow> py_exception + nat list \<Rightarrow> py_exception + nat list" where
  "emit b r = (case r of Inl e \<Rightarrow> Inl e | Inr bs \<Rightarrow> Inr (b # bs))"

fun a2b_base64 :: "nat \<Rightarrow> nat \<Rightarrow> nat \<Rightarrow> string \<Rightarrow> py_exception + nat list" where
  "a2b_base64 quad_pos leftchar pads [] =
     (if quad_pos \<noteq> 0 then
        (if quad_pos = 1
         then Inl (BinasciiError ''Invalid base64-encoded string'')
         else Inl (BinasciiError ''Incorrect padding''))
      else Inr [])"
| "a2b_base64 quad_pos leftchar pads (c # cs) =
     (if c = CHR ''='' then
        (if 2 \<le> quad_pos \<and> 4 \<le> quad_pos + (pads + 1) then Inr []
         else a2b_base64 quad_pos leftchar (if 2 \<le> quad_pos then pads + 1 else pads) cs)
      else
        (case b64_value c of
           None \<Rightarrow> a2b_base64 quad_pos leftchar pads cs
         | Some this_ch \<Rightarrow>
             if quad_pos = 0 then a2b_base64 1 this_ch 0 cs
             else if quad_pos = 1
             then emit (leftchar * 4 + this_ch div 16) (a2b_base64 2 (this_ch mod 16) 0 cs)
             else if quad_pos = 2
             then emit (leftchar * 16 + this_ch div 4) (a2b_base64 3 (this_ch mod 4) 0 cs)
             else emit (leftchar * 64 + this_ch) (a2b_base64 0 0 0 cs)))"

definition b64decode :: "string \<Rightarrow> py_exception + nat list" where
  "b64decode s = a2b_base64 0 0 0 s"

section \<open>generation.py\<close>

text \<open>
  A request document as \<^verbatim>\<open>json.loads\<close> returns it. A dictionary is the list of
  its items in insertion order; \<^verbatim>\<open>None\<close> is \<open>JNull\<close>.
\<close>

datatype json =
    JNull
  | JBool bool
  | JInt int
  | JFloat pyfloat
  | JStr string
  | JArr "json list"
  | JObj "(string \<times> json) list"

type_synonym payload = "(string \<times> json) list"

text \<open>\<^verbatim>\<open>d.get(k)\<close>, \<^verbatim>\<open>k in d\<close>, \<^verbatim>\<open>d[k] = v\<close> and a comprehension that keeps
  the items whose key is allowed.\<close>

definition dict_get :: "payload \<Rightarrow> string \<Rightarrow> json" where
  "dict_get d k = (case map_of d k of None \<Rightarrow> JNull | Some v \<Rightarrow> v)"

definition dict_has :: "payload \<Rightarrow> string \<Rightarrow> bool" where
  "dict_has d k = (k \<in> set (map fst d))"

fun dict_set :: "payload \<Rightarrow> string \<Rightarrow> json \<Rightarrow> payload" where
  "dict_set [] k v = [(k, v)]"
| "dict_set (item # d) k v = (if fst item = k then (k, v) # d else item # dict_set d k v)"

definition keep_keys :: "string set \<Rightarrow> payload \<Rightarrow> payload" where
  "keep_keys allowed d = filter (\<lambda>item. fst item \<in> allowed) d"

text \<open>
  The schema classes, the validation of a document against them and the client are code
  of the package outside the command line interface: the field names of the four request
  classes, their \<^verbatim>\<open>model_validate\<close> (the offending fields on failure) and the four
  entry points of the client are parameters. \<open>'r\<close> is a validated request, \<open>'i\<close> an
  image.
\<close>

record schema_fields =
  ImageGenerationRequest_fields :: "string list"
  StreamImageGenerationRequest_fields :: "string list"
  ImageParameters_fields :: "string list"
  ImageStreamParameters_fields :: "string list"

record chunk =
  chunk_image :: string

record ('r, 'i) collaborators =
  StreamImageGenerationRequest_validate :: "payload \<Rightarrow> string list + 'r"
  ImageGenerationRequest_validate :: "payload \<Rightarrow> string list + 'r"
  GenerateImageStreamParams_validate :: "payload \<Rightarrow> string list + 'r"
  GenerateImageParams_validate :: "payload \<Rightarrow> string list + 'r"
  api_generate_stream :: "'r \<Rightarrow> py_exception + chunk list"
  api_generate :: "'r \<Rightarrow> py_exception + 'i list"
  image_generate_stream :: "'r \<Rightarrow> py_exception + chunk list"
  image_generate :: "'r \<Rightarrow> py_exception + 'i list"

text \<open>
  What the functions do besides returning, in the order they do it: a message on the
  console, a call of the client, a directory made, a file written. The iterable of chunks
  is the finite list of the chunks it yields.
\<close>

datatype message =
    Saved path
  | ReceivedChunk nat nat nat
  | StreamingComplete nat
  | SavedChunks nat path
  | StreamOverridden json
  | StartLowLevelStream
  | StartLowLevelSingle
  | StartHighLevelStream
  | StartHighLevelSingle
  | Generated nat
  | ValidationFailed "string list"
  | GenerationFailed py_exception

datatype entry_point = ApiGenerateStream | ApiGenerate | ImageGenerateStream | ImageGenerate

datatype ('r, 'i) event =
    Info message
  | Success message
  | Warn message
  | Fail message
  | Call entry_point 'r
  | Mkdir path
  | SaveImage path 'i
  | WriteBytes path "nat list"

fun save_numbered :: "path \<Rightarrow> nat \<Rightarrow> 'i list \<Rightarrow> ('r, 'i) event list" where
  "save_numbered output_path i [] = []"
| "save_numbered output_path i (img # imgs) =
     (let img_path = path_join output_path (''image_'' @ format_04d (i + 1) @ ''.png'')
      in SaveImage img_path img # Success (Saved img_path) # save_numbered output_path (i + 1) imgs)"

definition save_images :: "'i list \<Rightarrow> string \<Rightarrow> ('r, 'i) event list" where
  "save_images images outp =
     (let output_path = parse_path outp in
      if length images = 1 then
        (let output_path = (if path_suffix output_path = [] then path_join output_path ''image.png''
                            else output_path)
         in [Mkdir (path_parent output_path), SaveImage output_path (images ! 0),
             Success (Saved output_path)])
      else
        (let output_path = (if path_suffix output_path \<noteq> [] then path_parent output_path
                            else output_path)
         in Mkdir output_path # save_numbered output_path 0 images))"

text \<open>
  The loop of \<^verbatim>\<open>_save_stream_chunks\<close> with its two counters; it gives the events
  so far and either the counters at the end or the exception that a chunk's decoding
  raised.
\<close>

fun save_chunks_loop ::
  "path \<Rightarrow> nat \<Rightarrow> nat \<Rightarrow> chunk list \<Rightarrow> ('r, 'i) event list \<times> (py_exception + nat \<times> nat)" where
  "save_chunks_loop output_dir total_bytes chunk_count [] = ([], Inr (total_bytes, chunk_count))"
| "save_chunks_loop output_dir total_bytes chunk_count (c # cs) =
     (case b64decode (chunk_image c) of
        Inl e \<Rightarrow> ([], Inl e)
      | Inr decoded_image \<Rightarrow>
          (let total_bytes = total_bytes + length decoded_image;
               chunk_count = chunk_count + 1;
               chunk_path = path_join output_dir (''chunk_'' @ format_04d chunk_count @ ''.png'');
               r = save_chunks_loop output_dir total_bytes chunk_count cs
           in (WriteBytes chunk_path decoded_image
                 # Info (ReceivedChunk chunk_count (length decoded_image) total_bytes) # fst r,
               snd r)))"

definition no_chunks_message :: string where
  "no_chunks_message =
     ''No stream chunks were received. If your request JSON uses stream=msgpack, ''
       @ ''this CLI currently supports SSE streaming only.''"

definition save_stream_chunks ::
  "chunk list \<Rightarrow> string \<Rightarrow> ('r, 'i) event list \<times> py_exception option" where
  "save_stream_chunks chunks sdir =
     (let output_dir = parse_path sdir;
          r = save_chunks_loop output_dir 0 0 chunks
      in case snd r of
           Inl e \<Rightarrow> (Mkdir output_dir # fst r, Some e)
         | Inr (total_bytes, chunk_count) \<Rightarrow>
             if chunk_count = 0
             then (Mkdir output_dir # fst r, Some (RuntimeError no_chunks_message))
             else (Mkdir output_dir # fst r
                     @ [Success (StreamingComplete total_bytes),
                        Success (SavedChunks chunk_count output_dir)],
                   None))"

definition as_object_dict :: "json \<Rightarrow> payload option" where
  "as_object_dict v = (case v of JObj d \<Rightarrow> Some d | _ \<Rightarrow> None)"

definition sanitize_low_level_payload :: "schema_fields \<Rightarrow> payload \<Rightarrow> payload" where
  "sanitize_low_level_payload F pl =
     (let allowed_top = set (ImageGenerationRequest_fields F)
                          \<union> set (StreamImageGenerationRequest_fields F);
          cleaned = keep_keys allowed_top pl
      in case as_object_dict (dict_get cleaned ''parameters'') of
           None \<Rightarrow> cleaned
         | Some parameters_obj \<Rightarrow>
             (let allowed_params = set (ImageParameters_fields F)
                                     \<union> set (ImageStreamParameters_fields F)
              in dict_set cleaned ''parameters'' (JObj (keep_keys allowed_params parameters_obj))))"

definition normalize_low_level_stream_mode ::
  "payload \<Rightarrow> bool \<Rightarrow> payload \<times> ('r, 'i) event list" where
  "normalize_low_level_stream_mode pl force_stream =
     (case as_object_dict (dict_get pl ''parameters'') of
        None \<Rightarrow> (pl, [])
      | Some parameters_obj \<Rightarrow>
          (let normalized = pl;
               params = parameters_obj;
               stream_value = dict_get params ''stream''
           in if force_stream then
                (if stream_value \<noteq> JStr ''sse'' then
                   (dict_set normalized ''parameters'' (JObj (dict_set params ''stream'' (JStr ''sse''))),
                    (if stream_value \<noteq> JNull then [Warn (StreamOverridden stream_value)] else []))
                 else (normalized, []))
              else (normalized, [])))"

text \<open>
  The test at the head of \<^verbatim>\<open>generate_from_request_json\<close> that tells a low-level
  document from a high-level one.
\<close>

definition is_low_level :: "payload \<Rightarrow> bool" where
  "is_low_level pl =
     ((case dict_get pl ''parameters'' of JObj d \<Rightarrow> True | _ \<Rightarrow> False)
      \<and> (dict_has pl ''input'' \<or> dict_has pl ''action''))"

datatype exit_state = Returned | Exited nat

text \<open>
  The body of the \<^verbatim>\<open>try\<close> in \<^verbatim>\<open>generate_from_request_json\<close>, for a document
  that \<^verbatim>\<open>_load_request_json\<close> has read: the events, and the exception that ended
  it if one did.
\<close>

definition request_json_body ::
  "schema_fields \<Rightarrow> ('r, 'i) collaborators \<Rightarrow> args \<Rightarrow> payload
     \<Rightarrow> ('r, 'i) event list \<times> py_exception option" where
  "request_json_body F K a pl =
     (if is_low_level pl then
        (let pl1 = sanitize_low_level_payload F pl;
             parameters = as_object_dict (dict_get pl1 ''parameters'');
             stream_in_payload =
               (case parameters of None \<Rightarrow> False | Some d \<Rightarrow> dict_has d ''stream'');
             is_stream = (stream a \<or> stream_in_payload);
             n = normalize_low_level_stream_mode pl1 is_stream;
             pl2 = fst n;
             warned = snd n
         in if is_stream then
              (case StreamImageGenerationRequest_validate K pl2 of
                 Inl errs \<Rightarrow> (warned @ [Info StartLowLevelStream], Some (ValidationError errs))
               | Inr request \<Rightarrow>
                   (case api_generate_stream K request of
                      Inl e \<Rightarrow>
                        (warned @ [Info StartLowLevelStream, Call ApiGenerateStream request], Some e)
                    | Inr chunks \<Rightarrow>
                        (let s = save_stream_chunks chunks (stream_dir a)
                         in (warned @ [Info StartLowLevelStream, Call ApiGenerateStream request]
                               @ fst s, snd s))))
            else
              (case ImageGenerationRequest_validate K pl2 of
                 Inl errs \<Rightarrow> (warned @ [Info StartLowLevelSingle], Some (ValidationError errs))
               | Inr request \<Rightarrow>
                   (case api_generate K request of
                      Inl e \<Rightarrow> (warned @ [Info StartLowLevelSingle, Call ApiGenerate request], Some e)
                    | Inr images \<Rightarrow>
                        (warned @ [Info StartLowLevelSingle, Call ApiGenerate request]
                           @ save_images images (output' a)
                           @ [Success (Generated (length images))], None))))
      else if stream a then
        (case GenerateImageStreamParams_validate K pl of
           Inl errs \<Rightarrow> ([Info StartHighLevelStream], Some (ValidationError errs))
         | Inr params \<Rightarrow>
             (case image_generate_stream K params of
                Inl e \<Rightarrow> ([Info StartHighLevelStream, Call ImageGenerateStream params], Some e)
              | Inr chunks \<Rightarrow>
                  (let s = save_stream_chunks chunks (stream_dir a)
                   in ([Info StartHighLevelStream, Call ImageGenerateStream params] @ fst s, snd s))))
      else
        (case GenerateImageParams_validate K pl of
           Inl errs \<Rightarrow> ([Info StartHighLevelSingle], Some (ValidationError errs))
         | Inr params \<Rightarrow>
             (case image_generate K params of
                Inl e \<Rightarrow> ([Info StartHighLevelSingle, Call ImageGenerate params], Some e)
              | Inr images \<Rightarrow>
                  ([Info StartHighLevelSingle, Call ImageGenerate params]
                     @ save_images images (output' a)
                     @ [Success (Generated (length images))], None))))"

text \<open>
  The two handlers: a \<^verbatim>\<open>ValidationError\<close> and any other exception are reported and
  end the process with status 1.
\<close>

definition generate_from_request_json ::
  "schema_fields \<Rightarrow> ('r, 'i) collaborators \<Rightarrow> args \<Rightarrow> payload
     \<Rightarrow> ('r, 'i) event list \<times> exit_state" where
  "generate_from_request_json F K a pl =
     (let r = request_json_body F K a pl in
      case snd r of
        None \<Rightarrow> (fst r, Returned)
      | Some (ValidationError errs) \<Rightarrow> (fst r @ [Fail (ValidationFailed errs)], Exited 1)
      | Some e \<Rightarrow> (fst r @ [Fail (GenerationFailed e)], Exited 1))"

text \<open>The calls of the client and the files written, read off the events.\<close>

fun is_call :: "('r, 'i) event \<Rightarrow> bool" where
  "is_call (Call ep r) = True"
| "is_call e = False"

fun is_write :: "('r, 'i) event \<Rightarrow> bool" where
  "is_write (WriteBytes p bs) = True"
| "is_write e = False"

fun saved_paths :: "('r, 'i) event list \<Rightarrow> string list" where
  "saved_paths [] = []"
| "saved_paths (SaveImage p img # es) = path_str p # saved_paths es"
| "saved_paths (e # es) = saved_paths es"

fun written_paths :: "('r, 'i) event list \<Rightarrow> string list" where
  "written_paths [] = []"
| "written_paths (WriteBytes p bs # es) = path_str p # written_paths es"
| "written_paths (e # es) = written_paths es"

fun calls :: "('r, 'i) event list \<Rightarrow> (entry_point \<times> 'r) list" where
  "calls [] = []"
| "calls (Call ep r # es) = (ep, r) # calls es"
| "calls (e # es) = calls es"

text \<open>The announcements of the path taken, among the events.\<close>

definition start_messages :: "message list" where
  "start_messages =
     [StartLowLevelStream, StartLowLevelSingle, StartHighLevelStream, StartHighLevelSingle]"

fun started :: "('r, 'i) event list \<Rightarrow> message list" where
  "started [] = []"
| "started (Info m # es) = (if m \<in> set start_messages then m # started es else started es)"
| "started (e # es) = started es"

text \<open>
  The one \<^verbatim>\<open>model_validate\<close> call that \<^verbatim>\<open>generate_from_request_json\<close> makes
  for a document, with the schema and the document it is made on (lines 172 to 203 of
  the source, without the dispatch).
\<close>

definition reached_validation ::
  "schema_fields \<Rightarrow> ('r, 'i) collaborators \<Rightarrow> args \<Rightarrow> payload \<Rightarrow> string list + 'r" where
  "reached_validation F K a pl =
     (if is_low_level pl then
        (let pl1 = sanitize_low_level_payload F pl;
             parameters = as_object_dict (dict_get pl1 ''parameters'');
             stream_in_payload =
               (case parameters of None \<Rightarrow> False | Some d \<Rightarrow> dict_has d ''stream'');
             is_stream = (stream a \<or> stream_in_payload);
             pl2 = fst (normalize_low_level_stream_mode pl1 is_stream :: payload \<times> ('r, 'i) event list)
         in if is_stream then StreamImageGenerationRequest_validate K pl2
            else ImageGenerationRequest_validate K pl2)
      else if stream a then GenerateImageStreamParams_validate K pl
      else GenerateImageParams_validate K pl)"

text \<open>
  Stand-ins for the worked examples: field names of the request classes, a validation that
  refuses a step count outside 1 to 50 (at the top level of a high-level document, in the
  parameters of a low-level one), and a client that answers with two images or two chunks.
\<close>

definition example_fields :: schema_fields where
  "example_fields =
     \<lparr> ImageGenerationRequest_fields = [''input'', ''model'', ''action'', ''parameters''],
       StreamImageGenerationRequest_fields = [''input'', ''model'', ''action'', ''parameters''],
       ImageParameters_fields = [''steps'', ''scale'', ''seed''],
       ImageStreamParameters_fields = [''steps'', ''scale'', ''seed'', ''stream''] \<rparr>"

definition example_steps_check :: "payload \<Rightarrow> string list + payload" where
  "example_steps_check d =
     (case dict_get d ''steps'' of
        JInt n \<Rightarrow> if 1 \<le> n \<and> n \<le> 50 then Inr d else Inl [''steps'']
      | _ \<Rightarrow> Inr d)"

definition example_low_level_check :: "payload \<Rightarrow> string list + payload" where
  "example_low_level_check d =
     (case dict_get d ''parameters'' of
        JObj ps \<Rightarrow> (case example_steps_check ps of Inl errs \<Rightarrow> Inl errs | Inr u \<Rightarrow> Inr d)
      | _ \<Rightarrow> Inl [''parameters''])"

definition example_collaborators :: "(payload, nat) collaborators" where
  "example_collaborators =
     \<lparr> StreamImageGenerationRequest_validate = example_low_level_check,
       ImageGenerationRequest_validate = example_low_level_check,
       GenerateImageStreamParams_validate = example_steps_check,
       GenerateImageParams_validate = example_steps_check,
       api_generate_stream = (\<lambda>r. Inr [\<lparr>chunk_image = ''QUJD''\<rparr>, \<lparr>chunk_image = ''QQ==''\<rparr>]),
       api_generate = (\<lambda>r. Inr [1, 2]),
       image_generate_stream = (\<lambda>r. Inr [\<lparr>chunk_image = ''QUJD''\<rparr>, \<lparr>chunk_image = ''QQ==''\<rparr>]),
       image_generate = (\<lambda>r. Inr [1, 2]) \<rparr>"

text \<open>
  The classification rule in the words of the specification, to be compared with
  \<open>is_low_level\<close>: low-level if and only if the document has a \<^verbatim>\<open>parameters\<close>
  mapping and an \<^verbatim>\<open>input\<close> or an \<^verbatim>\<open>action\<close> key at the top level.
\<close>

datatype request_kind = LOW_LEVEL | HIGH_LEVEL

definition spec_classify :: "payload \<Rightarrow> request_kind" where
  "spec_classify pl =
     (if (case map_of pl ''parameters'' of Some (JObj d) \<Rightarrow> True | _ \<Rightarrow> False)
         \<and> (''input'' \<in> fst ` set pl \<or> ''action'' \<in> fst ` set pl)
      then LOW_LEVEL else HIGH_LEVEL)"

text \<open>The file names the two savers count through, from \<open>i\<close> up to \<open>j - 1\<close>.\<close>

definition numbered_names :: "path \<Rightarrow> string \<Rightarrow> nat \<Rightarrow> nat \<Rightarrow> string list" where
  "numbered_names dir stem i j =
     map (\<lambda>k. path_str (path_join dir (stem @ format_04d k @ ''.png''))) [i ..< j]"

definition decodes :: "chunk \<Rightarrow> bool" where
  "decodes c = (case b64decode (chunk_image c) of Inl e \<Rightarrow> False | Inr bs \<Rightarrow> True)"

text \<open>
  The second half of the streaming trigger in the words of the specification: the
  parameters mapping of the document has a \<^verbatim>\<open>stream\<close> key, whatever its value.
\<close>

definition spec_declares_stream :: "payload \<Rightarrow> bool" where
  "spec_declares_stream pl =
     (case map_of pl ''parameters'' of Some (JObj d) \<Rightarrow> ''stream'' \<in> fst ` set d | _ \<Rightarrow> False)"

section \<open>Properties of the interactive session\<close>

subsection \<open>Attributes and setters\<close>

lemma setattr_getattr:
  "setattr_args (setattr_args a atr v) atr (getattr_args a atr) = a"
  by (cases atr; cases v) (simp_all split: option.split)

lemma setattr_other_choice:
  "(atr \<noteq> A_model \<longrightarrow> model (setattr_args a atr v) = model a) \<and>
   (atr \<noteq> A_sampler \<longrightarrow> sampler (setattr_args a atr v) = sampler a) \<and>
   (atr \<noteq> A_uc_preset \<longrightarrow> uc_preset (setattr_args a atr v) = uc_preset a) \<and>
   (atr \<noteq> A_ref_type \<longrightarrow> ref_type (setattr_args a atr v) = ref_type a)"
  by (cases atr; cases v) simp_all

lemma range_checks_error: "range_checks a = Inl e \<Longrightarrow> \<exists>m. e = ValueError m"
  by (auto simp: range_checks_def and_then_def validate_range_def split: if_splits sum.splits)

lemma validate_args_interactive: "validate_args a True = range_checks a"
  by (auto simp: validate_args_def split: sum.splits cli_error.splits dest: range_checks_error)

lemma range_checks_size: "range_checks (a\<lparr>size' := v\<rparr>) = range_checks a"
  by (simp add: range_checks_def)

lemma setters_str_not_none:
  "map_of (interactive_setters pf) key = Some (atr, cast_fn) \<Longrightarrow> cast_fn val = Inr v \<Longrightarrow>
   key = ''reference'' \<or> key = ''controlnet'' \<or> key = ''image'' \<Longrightarrow> v \<noteq> PyNone"
  by (auto simp: interactive_setters_def cast_str_def)

lemma setters_attr:
  "map_of (interactive_setters pf) key = Some (atr, cast_fn) \<Longrightarrow>
     (atr = A_model \<longrightarrow> key = ''model'') \<and> (atr = A_sampler \<longrightarrow> key = ''sampler'') \<and>
     (atr = A_uc_preset \<longrightarrow> key = ''uc-preset'') \<and> (atr = A_ref_type \<longrightarrow> key = ''ref-type'')"
  by (auto simp: interactive_setters_def split: if_splits)

text \<open>
  What a call of \<^verbatim>\<open>_apply_interactive_set\<close> can do: nothing, or store the cast
  value in the key's attribute, and then only after the range checks and the choice check
  of that key have passed. The three resets at the end of the function never fire, since
  the cast of their keys gives a string.
\<close>

lemma apply_interactive_set_cases:
  assumes "apply_interactive_set C pf a d key val = (out, a')"
  shows "(a' = a \<and> (\<forall>k v. out \<noteq> Updated k v)) \<or>
         (\<exists>atr cast_fn v. map_of (interactive_setters pf) key = Some (atr, cast_fn) \<and>
            cast_fn val = Inr v \<and> a' = setattr_args a atr v \<and> out = Updated key v \<and>
            range_checks a' = Inr () \<and>
            (key = ''model'' \<longrightarrow> model a' \<in> set (MODEL_CHOICES C)) \<and>
            (key = ''sampler'' \<longrightarrow> sampler a' \<in> set (SAMPLER_CHOICES C)) \<and>
            (key = ''uc-preset'' \<longrightarrow> uc_preset a' \<in> set (UC_PRESET_CHOICES C)) \<and>
            (key = ''ref-type'' \<longrightarrow> ref_type a' \<in> set REF_TYPE_CHOICES))"
proof (cases "map_of (interactive_setters pf) key")
  case None
  with assms show ?thesis by (auto simp: apply_interactive_set_def)
next
  case (Some p)
  obtain atr cast_fn where p: "p = (atr, cast_fn)" by (cases p)
  note look = Some[unfolded p]
  show ?thesis
  proof (cases "cast_fn val")
    case (Inl e)
    with assms look show ?thesis by (auto simp: apply_interactive_set_def)
  next
    case (Inr v)
    have nn: "key = ''reference'' \<or> key = ''controlnet'' \<or> key = ''image'' \<Longrightarrow> v \<noteq> PyNone"
      using setters_str_not_none[OF look Inr] .
    show ?thesis
    proof (cases "range_checks (setattr_args a atr v)")
      case (Inl e)
      then obtain m where "e = ValueError m" using range_checks_error by blast
      with assms look Inr Inl show ?thesis
        by (auto simp: apply_interactive_set_def validate_args_interactive setattr_getattr)
    next
      case ok: (Inr u)
      from assms look Inr ok nn show ?thesis
        by (auto simp: apply_interactive_set_def validate_args_interactive setattr_getattr Let_def
            split: if_splits)
    qed
  qed
qed

lemma apply_set_range:
  assumes "range_checks a = Inr ()"
  shows "range_checks (snd (apply_interactive_set C pf a d key val)) = Inr ()"
  using apply_interactive_set_cases[of C pf a d key val] assms
  by (cases "apply_interactive_set C pf a d key val") auto

lemma apply_set_choices:
  assumes "choices_ok C a"
  shows "choices_ok C (snd (apply_interactive_set C pf a d key val))"
proof -
  obtain out a' where r: "apply_interactive_set C pf a d key val = (out, a')"
    by (cases "apply_interactive_set C pf a d key val")
  from apply_interactive_set_cases[OF r] show ?thesis
  proof
    assume "a' = a \<and> (\<forall>k v. out \<noteq> Updated k v)"
    with assms r show ?thesis by simp
  next
    assume "\<exists>atr cast_fn v. map_of (interactive_setters pf) key = Some (atr, cast_fn) \<and>
            cast_fn val = Inr v \<and> a' = setattr_args a atr v \<and> out = Updated key v \<and>
            range_checks a' = Inr () \<and>
            (key = ''model'' \<longrightarrow> model a' \<in> set (MODEL_CHOICES C)) \<and>
            (key = ''sampler'' \<longrightarrow> sampler a' \<in> set (SAMPLER_CHOICES C)) \<and>
            (key = ''uc-preset'' \<longrightarrow> uc_preset a' \<in> set (UC_PRESET_CHOICES C)) \<and>
            (key = ''ref-type'' \<longrightarrow> ref_type a' \<in> set REF_TYPE_CHOICES)"
    then obtain atr cast_fn v where
      look: "map_of (interactive_setters pf) key = Some (atr, cast_fn)" and
      a': "a' = setattr_args a atr v" and
      m: "key = ''model'' \<longrightarrow> model a' \<in> set (MODEL_CHOICES C)" and
      s: "key = ''sampler'' \<longrightarrow> sampler a' \<in> set (SAMPLER_CHOICES C)" and
      u: "key = ''uc-preset'' \<longrightarrow> uc_preset a' \<in> set (UC_PRESET_CHOICES C)" and
      t: "key = ''ref-type'' \<longrightarrow> ref_type a' \<in> set REF_TYPE_CHOICES"
      by blast
    have "model a' \<in> set (MODEL_CHOICES C)"
      using m setters_attr[OF look] setattr_other_choice[of atr a v] assms a'
      by (cases "atr = A_model") (auto simp: choices_ok_def)
    moreover have "sampler a' \<in> set (SAMPLER_CHOICES C)"
      using s setters_attr[OF look] setattr_other_choice[of atr a v] assms a'
      by (cases "atr = A_sampler") (auto simp: choices_ok_def)
    moreover have "uc_preset a' \<in> set (UC_PRESET_CHOICES C)"
      using u setters_attr[OF look] setattr_other_choice[of atr a v] assms a'
      by (cases "atr = A_uc_preset") (auto simp: choices_ok_def)
    moreover have "ref_type a' \<in> set REF_TYPE_CHOICES"
      using t setters_attr[OF look] setattr_other_choice[of atr a v] assms a'
      by (cases "atr = A_ref_type") (auto simp: choices_ok_def)
    ultimately show ?thesis using r by (simp add: choices_ok_def)
  qed
qed

lemma apply_set_rollback:
  assumes "\<forall>k v. fst (apply_interactive_set C pf a d key val) \<noteq> Updated k v"
  shows "snd (apply_interactive_set C pf a d key val) = a"
  using apply_interactive_set_cases[of C pf a d key val] assms
  by (cases "apply_interactive_set C pf a d key val") auto

subsection \<open>The command lines\<close>

lemma lower_set: "lower ''/set'' = ''/set''"
  by (simp add: lower_def lower_char_def)

lemma lower_unset: "lower ''/unset'' = ''/unset''"
  by (simp add: lower_def lower_char_def)

lemma normalize_size_key: "normalize_set_key ''size'' = ''size''"
  by (simp add: normalize_set_key_def strip_def lower_def lower_char_def is_space_def
      KEY_ALIASES_def)

lemma normalize_reference_key: "normalize_set_key ''reference'' = ''reference''"
  by (simp add: normalize_set_key_def strip_def lower_def lower_char_def is_space_def
      KEY_ALIASES_def)

lemma normalize_controlnet_key: "normalize_set_key ''controlnet'' = ''controlnet''"
  by (simp add: normalize_set_key_def strip_def lower_def lower_char_def is_space_def
      KEY_ALIASES_def)

lemma normalize_image_key: "normalize_set_key ''image'' = ''image''"
  by (simp add: normalize_set_key_def strip_def lower_def lower_char_def is_space_def
      KEY_ALIASES_def)

lemma normalize_unset_key: "normalize_set_key ''unset'' = ''unset''"
  by (simp add: normalize_set_key_def strip_def lower_def lower_char_def is_space_def
      KEY_ALIASES_def)

lemma set_line_command:
  "interactive_command C pf a d (set_line kv) =
     (SetDone (fst (apply_interactive_set C pf a d (normalize_set_key (fst kv)) (snd kv))),
      snd (apply_interactive_set C pf a d (normalize_set_key (fst kv)) (snd kv)))"
  by (simp add: interactive_command_def set_line_def Let_def lower_set)

lemma run_set_lines_range:
  "range_checks a = Inr () \<Longrightarrow> range_checks (run_set_lines C pf d a kvs) = Inr ()"
  unfolding run_set_lines_def
  by (induction kvs arbitrary: a) (simp_all add: set_line_command apply_set_range)

lemma run_set_lines_choices:
  "choices_ok C a \<Longrightarrow> choices_ok C (run_set_lines C pf d a kvs)"
  unfolding run_set_lines_def
  by (induction kvs arbitrary: a) (simp_all add: set_line_command apply_set_choices)

lemma apply_set_size:
  assumes "range_checks a = Inr ()"
  shows "apply_interactive_set C pf a d ''size'' v =
           (Updated ''size'' (PyStr v), a\<lparr>size' := v\<rparr>)"
  using assms
  by (simp add: apply_interactive_set_def interactive_setters_def cast_str_def
      validate_args_interactive range_checks_size)

lemma unset_nullable:
  "interactive_command C pf a d [''/unset'', ''reference''] =
     (UnsetDone ''reference'', a\<lparr>reference := None\<rparr>)"
  "interactive_command C pf a d [''/unset'', ''controlnet''] =
     (UnsetDone ''controlnet'', a\<lparr>controlnet := None\<rparr>)"
  "interactive_command C pf a d [''/unset'', ''image''] =
     (UnsetDone ''image'', a\<lparr>image' := None\<rparr>)"
  by (simp_all add: interactive_command_def lower_unset Let_def normalize_reference_key
      normalize_controlnet_key normalize_image_key normalize_unset_key replace_char_def
      lstrip_char_def
      attr_of_name_def attr_names_def normalize_unset_value_def optional_null_keys_def)

subsection \<open>Claims about the session\<close>

text \<open>
  C1. After any sequence of \<^verbatim>\<open>/set key value\<close> lines, with any keys and any values,
  a namespace that passed the range checks of \<^verbatim>\<open>validate_args\<close> still passes
  them, and one whose model, sampler, preset and reference type were among their choices
  still has them there. A line that does not report an update (unknown key, failed cast,
  failed range check, value outside the choices) leaves the namespace as it was.
\<close>

theorem interactive_set_preserves_validity:
  "(validate_args a True = Inr () \<longrightarrow> validate_args (run_set_lines C pf d a kvs) True = Inr ()) \<and>
   (choices_ok C a \<longrightarrow> choices_ok C (run_set_lines C pf d a kvs)) \<and>
   ((\<forall>k v. fst (interactive_command C pf a d (set_line kv)) \<noteq> SetDone (Updated k v)) \<longrightarrow>
      snd (interactive_command C pf a d (set_line kv)) = a)"
  by (simp add: validate_args_interactive run_set_lines_range run_set_lines_choices
      set_line_command apply_set_rollback)

theorem interactive_set_preserves_validity_witness:
  "validate_args (parser_defaults example_constants) True = Inr () \<and>
   choices_ok example_constants (parser_defaults example_constants) \<and>
   fst (interactive_command example_constants example_float (parser_defaults example_constants)
          (parser_defaults example_constants) (set_line (''st'', ''999'')))
     = SetDone (RejectedValue ''steps'' ''999'') \<and>
   validate_args
     (run_set_lines example_constants example_float (parser_defaults example_constants)
        (parser_defaults example_constants)
        [(''st'', ''999''), (''ST'', ''30''), (''scale'', ''nan''), (''m'', ''nai-diffusion-3'')])
     True = Inr () \<and>
   choices_ok example_constants
     (run_set_lines example_constants example_float (parser_defaults example_constants)
        (parser_defaults example_constants)
        [(''st'', ''999''), (''ST'', ''30''), (''scale'', ''nan''), (''m'', ''nai-diffusion-3'')]) \<and>
   snd (interactive_command example_constants example_float (parser_defaults example_constants)
          (parser_defaults example_constants) (set_line (''st'', ''999'')))
     = parser_defaults example_constants"
proof -
  have h1: "validate_args (parser_defaults example_constants) True = Inr ()"
    by code_simp
  have h2: "choices_ok example_constants (parser_defaults example_constants)"
    by code_simp
  have h3: "fst (interactive_command example_constants example_float
                   (parser_defaults example_constants) (parser_defaults example_constants)
                   (set_line (''st'', ''999'')))
              = SetDone (RejectedValue ''steps'' ''999'')"
    by code_simp
  show ?thesis
    using h1 h2 h3
      interactive_set_preserves_validity[of "parser_defaults example_constants"
        example_constants example_float "parser_defaults example_constants"
        "[(''st'', ''999''), (''ST'', ''30''), (''scale'', ''nan''), (''m'', ''nai-diffusion-3'')]"
        "(''st'', ''999'')"]
    by simp
qed

text \<open>
  C2, as the code has it. \<^verbatim>\<open>/unset reference\<close> clears the reference and nothing
  else: after \<^verbatim>\<open>/set ref-fidelity 0.5\<close> and \<^verbatim>\<open>/set ref-strength 0.5\<close> the two
  settings stay at 0.5, though their defaults are 1.0; the same holds for the strength of
  a cleared controlnet image and for the strength and noise of a cleared base image.
\<close>

theorem unset_reference_leaves_dependents:
  "reference (snd (interactive_command example_constants example_float
       ((parser_defaults example_constants)
          \<lparr>reference := Some ''ref.png'', ref_fidelity := Finite (1 / 2),
           ref_strength := Finite (1 / 2)\<rparr>)
       (parser_defaults example_constants) [''/unset'', ''reference''])) = None \<and>
   ref_fidelity (snd (interactive_command example_constants example_float
       ((parser_defaults example_constants)
          \<lparr>reference := Some ''ref.png'', ref_fidelity := Finite (1 / 2),
           ref_strength := Finite (1 / 2)\<rparr>)
       (parser_defaults example_constants) [''/unset'', ''reference''])) = Finite (1 / 2) \<and>
   ref_strength (snd (interactive_command example_constants example_float
       ((parser_defaults example_constants)
          \<lparr>reference := Some ''ref.png'', ref_fidelity := Finite (1 / 2),
           ref_strength := Finite (1 / 2)\<rparr>)
       (parser_defaults example_constants) [''/unset'', ''reference''])) = Finite (1 / 2) \<and>
   ref_fidelity (parser_defaults example_constants) = Finite 1 \<and>
   ref_strength (parser_defaults example_constants) = Finite 1 \<and>
   controlnet_strength (snd (interactive_command example_constants example_float
       ((parser_defaults example_constants)
          \<lparr>controlnet := Some ''edge.png'', controlnet_strength := Finite (1 / 2)\<rparr>)
       (parser_defaults example_constants) [''/unset'', ''controlnet''])) = Finite (1 / 2) \<and>
   controlnet_strength (parser_defaults example_constants) = lit_0_6 \<and>
   strength (snd (interactive_command example_constants example_float
       ((parser_defaults example_constants)
          \<lparr>image' := Some ''base.png'', strength := Finite (1 / 2), noise := Finite (1 / 2)\<rparr>)
       (parser_defaults example_constants) [''/unset'', ''image''])) = Finite (1 / 2) \<and>
   noise (snd (interactive_command example_constants example_float
       ((parser_defaults example_constants)
          \<lparr>image' := Some ''base.png'', strength := Finite (1 / 2), noise := Finite (1 / 2)\<rparr>)
       (parser_defaults example_constants) [''/unset'', ''image''])) = Finite (1 / 2) \<and>
   strength (parser_defaults example_constants) = lit_0_7 \<and>
   noise (parser_defaults example_constants) = Finite 0"
  by (simp add: unset_nullable parser_defaults_def lit_0_0_def lit_1_0_def)

text \<open>
  C10. The range checks do not read the size, so in a session whose namespace passes them
  \<^verbatim>\<open>/set size v\<close> stores any text \<open>v\<close> as it is. The malformed
  \<^verbatim>\<open>12xab\<close> is stored like any other, and it is \<^verbatim>\<open>parse_size\<close>, at the next
  generation, that refuses it and leaves with status 1.
\<close>

theorem set_size_is_not_validated:
  assumes "validate_args a True = Inr ()"
  shows "validate_args (a\<lparr>size' := v\<rparr>) b = validate_args a b \<and>
         interactive_command C pf a d [''/set'', ''size'', v] =
           (SetDone (Updated ''size'' (PyStr v)), a\<lparr>size' := v\<rparr>) \<and>
         size' (snd (interactive_command C pf a d [''/set'', ''size'', ''12xab''])) = ''12xab'' \<and>
         parse_size (size' (snd (interactive_command C pf a d [''/set'', ''size'', ''12xab''])))
           = Inl (SystemExit 1)"
proof -
  have r: "range_checks a = Inr ()"
    using assms by (simp add: validate_args_interactive)
  have cmd: "interactive_command C pf a d [''/set'', ''size'', w] =
               (SetDone (Updated ''size'' (PyStr w)), a\<lparr>size' := w\<rparr>)" for w
    by (simp add: interactive_command_def lower_set Let_def normalize_size_key
        apply_set_size[OF r])
  have bad: "parse_size ''12xab'' = Inl (SystemExit 1)"
    by code_simp
  show ?thesis
    by (simp add: cmd bad validate_args_def range_checks_size)
qed

theorem set_size_is_not_validated_witness:
  "validate_args (parser_defaults example_constants) True = Inr () \<and>
   interactive_command example_constants example_float (parser_defaults example_constants)
       (parser_defaults example_constants) [''/set'', ''size'', ''12xab''] =
     (SetDone (Updated ''size'' (PyStr ''12xab'')),
      (parser_defaults example_constants)\<lparr>size' := ''12xab''\<rparr>) \<and>
   parse_size (size' (snd (interactive_command example_constants example_float
       (parser_defaults example_constants) (parser_defaults example_constants)
       [''/set'', ''size'', ''12xab'']))) = Inl (SystemExit 1)"
proof -
  have h: "validate_args (parser_defaults example_constants) True = Inr ()"
    by code_simp
  have bad: "parse_size ''12xab'' = Inl (SystemExit 1)"
    by code_simp
  show ?thesis
    using h bad set_size_is_not_validated[OF h, of "''12xab''" True example_constants example_float
        "parser_defaults example_constants"]
    by simp
qed

section \<open>Properties of the request documents\<close>

subsection \<open>Dictionaries\<close>

lemma keep_keys_idem: "keep_keys A (keep_keys A d) = keep_keys A d"
  by (simp add: keep_keys_def)

lemma map_of_keep_keys_in: "map_of (keep_keys A d) k = Some v \<Longrightarrow> k \<in> A"
  by (auto simp: keep_keys_def dest!: map_of_SomeD)

lemma dict_get_JObj: "dict_get d k = JObj po \<Longrightarrow> map_of d k = Some (JObj po)"
  by (simp add: dict_get_def split: option.splits)

lemma as_object_dict_Some: "as_object_dict v = Some po \<longleftrightarrow> v = JObj po"
  by (cases v) (simp_all add: as_object_dict_def)

lemma as_object_dict_None: "as_object_dict v = None \<longleftrightarrow> (\<forall>po. v \<noteq> JObj po)"
  by (cases v) (simp_all add: as_object_dict_def)

lemma dict_get_dict_set: "dict_get (dict_set d k v) k = v"
  by (induction d) (auto simp: dict_get_def)

lemma dict_set_twice: "dict_set (dict_set d k v) k w = dict_set d k w"
  by (induction d) auto

lemma keep_keys_dict_set:
  "k \<in> A \<Longrightarrow> keep_keys A (dict_set (keep_keys A d) k v) = dict_set (keep_keys A d) k v"
  by (induction d) (auto simp: keep_keys_def)

subsection \<open>Sanitizing, normalizing, classifying\<close>

text \<open>
  C5. Sanitizing a sanitized document changes nothing, whatever the document and whatever
  the field names of the schemas are.
\<close>

theorem sanitize_idempotent:
  "sanitize_low_level_payload F (sanitize_low_level_payload F pl) =
     sanitize_low_level_payload F pl"
proof -
  define A where
    "A = set (ImageGenerationRequest_fields F) \<union> set (StreamImageGenerationRequest_fields F)"
  define B where
    "B = set (ImageParameters_fields F) \<union> set (ImageStreamParameters_fields F)"
  define cleaned where "cleaned = keep_keys A pl"
  have unfold: "sanitize_low_level_payload F d =
      (case as_object_dict (dict_get (keep_keys A d) ''parameters'') of
         None \<Rightarrow> keep_keys A d
       | Some po \<Rightarrow> dict_set (keep_keys A d) ''parameters'' (JObj (keep_keys B po)))" for d
    by (simp add: sanitize_low_level_payload_def A_def B_def Let_def split: option.splits)
  show ?thesis
  proof (cases "as_object_dict (dict_get cleaned ''parameters'')")
    case None
    have idem: "keep_keys A cleaned = cleaned"
      by (simp add: cleaned_def keep_keys_idem)
    have once: "sanitize_low_level_payload F pl = cleaned"
      using None by (simp add: unfold cleaned_def)
    have "sanitize_low_level_payload F cleaned = cleaned"
      using None by (simp add: unfold idem)
    then show ?thesis by (simp add: once)
  next
    case (Some po)
    then have "map_of cleaned ''parameters'' = Some (JObj po)"
      by (simp add: as_object_dict_Some dict_get_JObj)
    then have inA: "''parameters'' \<in> A"
      unfolding cleaned_def by (rule map_of_keep_keys_in)
    have once: "sanitize_low_level_payload F pl =
                  dict_set cleaned ''parameters'' (JObj (keep_keys B po))"
      using Some by (simp add: unfold cleaned_def)
    have kept: "keep_keys A (dict_set cleaned ''parameters'' (JObj (keep_keys B po))) =
                  dict_set cleaned ''parameters'' (JObj (keep_keys B po))"
      unfolding cleaned_def using inA by (rule keep_keys_dict_set)
    have "sanitize_low_level_payload F (dict_set cleaned ''parameters'' (JObj (keep_keys B po))) =
            dict_set cleaned ''parameters'' (JObj (keep_keys B po))"
      by (simp add: unfold kept dict_get_dict_set as_object_dict_def keep_keys_idem dict_set_twice)
    then show ?thesis by (simp add: once)
  qed
qed

theorem sanitize_idempotent_witness:
  "sanitize_low_level_payload example_fields
     [(''input'', JStr ''cat''), (''junk'', JInt 1),
      (''parameters'', JObj [(''steps'', JInt 28), (''zzz'', JNull), (''stream'', JStr ''sse'')])]
     = [(''input'', JStr ''cat''),
        (''parameters'', JObj [(''steps'', JInt 28), (''stream'', JStr ''sse'')])] \<and>
   sanitize_low_level_payload example_fields
     [(''input'', JStr ''cat''),
      (''parameters'', JObj [(''steps'', JInt 28), (''stream'', JStr ''sse'')])]
     = [(''input'', JStr ''cat''),
        (''parameters'', JObj [(''steps'', JInt 28), (''stream'', JStr ''sse'')])]"
proof -
  have once: "sanitize_low_level_payload example_fields
     [(''input'', JStr ''cat''), (''junk'', JInt 1),
      (''parameters'', JObj [(''steps'', JInt 28), (''zzz'', JNull), (''stream'', JStr ''sse'')])]
     = [(''input'', JStr ''cat''),
        (''parameters'', JObj [(''steps'', JInt 28), (''stream'', JStr ''sse'')])]"
    by code_simp
  show ?thesis
    using once sanitize_idempotent[of example_fields
        "[(''input'', JStr ''cat''), (''junk'', JInt 1),
          (''parameters'', JObj [(''steps'', JInt 28), (''zzz'', JNull), (''stream'', JStr ''sse'')])]"]
    by simp
qed

text \<open>
  C8. Without the request to stream, normalizing returns the document it was given and
  warns about nothing, whether the parameters declare a stream mode or not.
\<close>

theorem normalize_without_stream_is_identity:
  "(normalize_low_level_stream_mode pl False :: payload \<times> ('r, 'i) event list) = (pl, [])"
  by (simp add: normalize_low_level_stream_mode_def Let_def split: option.splits)

theorem normalize_without_stream_is_identity_witness:
  "fst (normalize_low_level_stream_mode
          [(''input'', JStr ''cat''), (''parameters'', JObj [(''stream'', JStr ''msgpack'')])] False
        :: payload \<times> (unit, unit) event list)
     = [(''input'', JStr ''cat''), (''parameters'', JObj [(''stream'', JStr ''msgpack'')])] \<and>
   fst (normalize_low_level_stream_mode
          [(''input'', JStr ''cat''), (''parameters'', JObj [(''stream'', JStr ''msgpack'')])] True
        :: payload \<times> (unit, unit) event list)
     = [(''input'', JStr ''cat''), (''parameters'', JObj [(''stream'', JStr ''sse'')])]"
proof -
  have forced: "fst (normalize_low_level_stream_mode
          [(''input'', JStr ''cat''), (''parameters'', JObj [(''stream'', JStr ''msgpack'')])] True
        :: payload \<times> (unit, unit) event list)
     = [(''input'', JStr ''cat''), (''parameters'', JObj [(''stream'', JStr ''sse'')])]"
    by code_simp
  show ?thesis
    using forced normalize_without_stream_is_identity[where 'r = unit and 'i = unit, of
        "[(''input'', JStr ''cat''), (''parameters'', JObj [(''stream'', JStr ''msgpack'')])]"]
    by simp
qed

section \<open>Properties of the savers\<close>

subsection \<open>Reading the events\<close>

lemma saved_paths_append: "saved_paths (xs @ ys) = saved_paths xs @ saved_paths ys"
  by (induction xs rule: saved_paths.induct) simp_all

lemma written_paths_append: "written_paths (xs @ ys) = written_paths xs @ written_paths ys"
  by (induction xs rule: written_paths.induct) simp_all

lemma calls_append: "calls (xs @ ys) = calls xs @ calls ys"
  by (induction xs rule: calls.induct) simp_all

lemma started_append: "started (xs @ ys) = started xs @ started ys"
  by (induction xs rule: started.induct) simp_all

lemma numbered_names_step:
  "i < j \<Longrightarrow> numbered_names dir stem i j =
     path_str (path_join dir (stem @ format_04d i @ ''.png'')) # numbered_names dir stem (Suc i) j"
  by (simp add: numbered_names_def upt_conv_Cons)

subsection \<open>Images\<close>

lemma saved_paths_numbered:
  "saved_paths (save_numbered dir i imgs) =
     numbered_names dir ''image_'' (i + 1) (i + 1 + length imgs)"
proof (induction imgs arbitrary: i)
  case Nil
  show ?case by (simp add: numbered_names_def)
next
  case (Cons img imgs)
  have "numbered_names dir ''image_'' (i + 1) (i + 1 + length (img # imgs)) =
          path_str (path_join dir (''image_'' @ format_04d (i + 1) @ ''.png''))
            # numbered_names dir ''image_'' (Suc (i + 1)) (i + 1 + length (img # imgs))"
    by (rule numbered_names_step) simp
  with Cons.IH[of "i + 1"] show ?case by (simp add: Let_def)
qed

lemma save_numbered_quiet:
  "calls (save_numbered dir i imgs) = [] \<and> started (save_numbered dir i imgs) = [] \<and>
   written_paths (save_numbered dir i imgs) = []"
  by (induction imgs arbitrary: i) (simp_all add: Let_def)

lemma save_images_quiet:
  "calls (save_images imgs outp) = [] \<and> started (save_images imgs outp) = [] \<and>
   written_paths (save_images imgs outp) = []"
  by (simp add: save_images_def Let_def save_numbered_quiet)

text \<open>
  C3, as the code has it. One image and a destination without extension: the file is
  \<^verbatim>\<open>image.png\<close> inside the destination. Any other number of images and a destination
  whose last component has an extension: that component is dropped, and the numbered files
  go into the directory that remains, the parent. So \<^verbatim>\<open>out\<close> gives
  \<^verbatim>\<open>out/image.png\<close>, and two images with \<^verbatim>\<open>out.png\<close> give
  \<^verbatim>\<open>image_0001.png\<close> and \<^verbatim>\<open>image_0002.png\<close> in the current directory.
\<close>

theorem save_images_layout:
  "(length imgs = 1 \<and> path_suffix (parse_path outp) = [] \<longrightarrow>
      saved_paths (save_images imgs outp :: ('r, 'i) event list) =
        [path_str (path_join (parse_path outp) ''image.png'')]) \<and>
   (length imgs \<noteq> 1 \<and> path_suffix (parse_path outp) \<noteq> [] \<longrightarrow>
      saved_paths (save_images imgs outp :: ('r, 'i) event list) =
        numbered_names (path_parent (parse_path outp)) ''image_'' 1 (1 + length imgs)) \<and>
   saved_paths (save_images [img] ''out'' :: ('r, 'i) event list) = [''out/image.png''] \<and>
   saved_paths (save_images [img1, img2] ''out.png'' :: ('r, 'i) event list)
     = [''image_0001.png'', ''image_0002.png'']"
proof -
  have out: "parse_path ''out'' = \<lparr>path_root = [], path_parts = [''out'']\<rparr>"
    by code_simp
  have out_suffix: "path_suffix \<lparr>path_root = [], path_parts = [''out'']\<rparr> = []"
    by code_simp
  have out_file: "path_str (path_join \<lparr>path_root = [], path_parts = [''out'']\<rparr> ''image.png'')
                    = ''out/image.png''"
    by code_simp
  have png: "parse_path ''out.png'' = \<lparr>path_root = [], path_parts = [''out.png'']\<rparr>"
    by code_simp
  have png_suffix: "path_suffix \<lparr>path_root = [], path_parts = [''out.png'']\<rparr> = ''.png''"
    by code_simp
  have png_files:
    "numbered_names (path_parent \<lparr>path_root = [], path_parts = [''out.png'']\<rparr>) ''image_''
        (Suc 0) (Suc (Suc (Suc 0)))
       = [''image_0001.png'', ''image_0002.png'']"
    by code_simp
  have one: "saved_paths (save_images [img] ''out'' :: ('r, 'i) event list) = [''out/image.png'']"
    by (simp add: save_images_def Let_def out out_suffix out_file)
  have two: "saved_paths (save_images [img1, img2] ''out.png'' :: ('r, 'i) event list)
               = [''image_0001.png'', ''image_0002.png'']"
    by (simp add: save_images_def Let_def png png_suffix saved_paths_numbered png_files
        del: save_numbered.simps)
  have single: "saved_paths (save_images imgs outp :: ('r, 'i) event list) =
                  [path_str (path_join (parse_path outp) ''image.png'')]"
    if "length imgs = 1" "path_suffix (parse_path outp) = []"
    using that by (simp add: save_images_def Let_def)
  have several: "saved_paths (save_images imgs outp :: ('r, 'i) event list) =
                   numbered_names (path_parent (parse_path outp)) ''image_'' 1 (1 + length imgs)"
    if "length imgs \<noteq> 1" "path_suffix (parse_path outp) \<noteq> []"
    using that by (simp add: save_images_def Let_def saved_paths_numbered)
  show ?thesis
    using one two single several by blast
qed

theorem save_images_layout_witness:
  "length [7 :: nat] = 1 \<and> path_suffix (parse_path ''out'') = [] \<and>
   saved_paths (save_images [7 :: nat] ''out'' :: (unit, nat) event list) = [''out/image.png''] \<and>
   length [7 :: nat, 8] \<noteq> 1 \<and> path_suffix (parse_path ''a/out.png'') \<noteq> [] \<and>
   saved_paths (save_images [7 :: nat, 8] ''a/out.png'' :: (unit, nat) event list)
     = [''a/image_0001.png'', ''a/image_0002.png'']"
proof -
  have h1: "path_suffix (parse_path ''out'') = []"
    by code_simp
  have h2: "path_suffix (parse_path ''a/out.png'') \<noteq> []"
    by code_simp
  have n1: "path_str (path_join (parse_path ''out'') ''image.png'') = ''out/image.png''"
    by code_simp
  have n2: "numbered_names (path_parent (parse_path ''a/out.png'')) ''image_''
              (Suc 0) (Suc (Suc (Suc 0)))
              = [''a/image_0001.png'', ''a/image_0002.png'']"
    by code_simp
  show ?thesis
    using h1 h2 n1 n2
      save_images_layout[where 'r = unit and 'i = nat, of "[7]" "''out''" 7 7 8]
      save_images_layout[where 'r = unit and 'i = nat, of "[7, 8]" "''a/out.png''" 7 7 8]
    by simp
qed

theorem save_images_extension_counterexample:
  "saved_paths (save_images [7 :: nat, 8] ''out.png'' :: (unit, nat) event list)
     = [''image_0001.png'', ''image_0002.png''] \<and>
   saved_paths (save_images [7 :: nat, 8] ''out.png'' :: (unit, nat) event list)
     \<noteq> [''out/image_0001.png'', ''out/image_0002.png'']"
  by code_simp

subsection \<open>Stream chunks\<close>

lemma b64_error: "a2b_base64 q l p s = Inl e \<Longrightarrow> \<exists>m. e = BinasciiError m"
  by (induction q l p s rule: a2b_base64.induct)
    (auto simp: emit_def split: if_splits option.splits sum.splits)

lemma b64decode_error: "b64decode s = Inl e \<Longrightarrow> \<exists>m. e = BinasciiError m"
  unfolding b64decode_def by (rule b64_error)

lemma save_chunks_loop_quiet:
  "calls (fst (save_chunks_loop dir t n cs)) = [] \<and>
   started (fst (save_chunks_loop dir t n cs)) = [] \<and>
   saved_paths (fst (save_chunks_loop dir t n cs)) = []"
  by (induction cs arbitrary: t n)
    (simp_all add: Let_def start_messages_def split: sum.splits)

lemma save_chunks_loop_error:
  "snd (save_chunks_loop dir t n cs) = Inl e \<Longrightarrow> \<exists>m. e = BinasciiError m"
  by (induction cs arbitrary: t n)
    (auto simp: Let_def split: sum.splits dest: b64decode_error)

lemma save_chunks_loop_all:
  "list_all decodes cs \<Longrightarrow>
     (\<exists>t'. snd (save_chunks_loop dir t n cs :: ('r, 'i) event list \<times> (py_exception + nat \<times> nat))
             = Inr (t', n + length cs)) \<and>
     written_paths
       (fst (save_chunks_loop dir t n cs :: ('r, 'i) event list \<times> (py_exception + nat \<times> nat))) =
       numbered_names dir ''chunk_'' (n + 1) (n + 1 + length cs)"
proof (induction cs arbitrary: t n)
  case Nil
  show ?case by (simp add: numbered_names_def)
next
  case (Cons c cs)
  from Cons.prems obtain bs where bs: "b64decode (chunk_image c) = Inr bs"
    by (auto simp: decodes_def split: sum.splits)
  from Cons.prems have rest: "list_all decodes cs" by simp
  have names: "numbered_names dir ''chunk_'' (n + 1) (n + 1 + length (c # cs)) =
          path_str (path_join dir (''chunk_'' @ format_04d (n + 1) @ ''.png''))
            # numbered_names dir ''chunk_'' (Suc (n + 1)) (n + 1 + length (c # cs))"
    by (rule numbered_names_step) simp
  from Cons.IH[OF rest, of "t + length bs" "n + 1"] bs names show ?case
    by (auto simp: Let_def)
qed

lemma save_chunks_loop_first_failure:
  "list_all decodes ps \<Longrightarrow> b64decode (chunk_image c) = Inl e \<Longrightarrow>
     snd (save_chunks_loop dir t n (ps @ c # qs)
            :: ('r, 'i) event list \<times> (py_exception + nat \<times> nat)) = Inl e \<and>
     length (written_paths
               (fst (save_chunks_loop dir t n (ps @ c # qs)
                       :: ('r, 'i) event list \<times> (py_exception + nat \<times> nat)))) = length ps"
proof (induction ps arbitrary: t n)
  case Nil
  then show ?case by simp
next
  case (Cons p ps)
  from Cons.prems obtain bs where bs: "b64decode (chunk_image p) = Inr bs"
    by (auto simp: decodes_def split: sum.splits)
  from Cons.prems have rest: "list_all decodes ps" by simp
  from Cons.IH[OF rest Cons.prems(2), of "t + length bs" "n + 1"] bs show ?case
    by (simp add: Let_def)
qed

lemma save_stream_chunks_quiet:
  "calls (fst (save_stream_chunks cs sdir)) = [] \<and>
   started (fst (save_stream_chunks cs sdir)) = [] \<and>
   saved_paths (fst (save_stream_chunks cs sdir)) = []"
  by (simp add: save_stream_chunks_def Let_def calls_append started_append saved_paths_append
      start_messages_def save_chunks_loop_quiet split: sum.splits prod.splits)

text \<open>
  C6, as the code has it. The error for an empty stream is raised exactly when the list of
  chunks is empty, and then only the directory has been made. A non-empty list of chunks
  that all decode ends without error with one file per chunk, numbered from 1. A chunk
  whose text is not base64 raises the error of the decoding instead, after the files of
  the chunks before it have been written.
\<close>

theorem save_stream_chunks_outcome:
  "(snd (save_stream_chunks cs sdir :: ('r, 'i) event list \<times> py_exception option)
      = Some (RuntimeError no_chunks_message) \<longleftrightarrow> cs = []) \<and>
   (cs = [] \<longrightarrow>
      fst (save_stream_chunks cs sdir :: ('r, 'i) event list \<times> py_exception option)
        = [Mkdir (parse_path sdir)]) \<and>
   (cs \<noteq> [] \<and> list_all decodes cs \<longrightarrow>
      snd (save_stream_chunks cs sdir :: ('r, 'i) event list \<times> py_exception option) = None \<and>
      written_paths (fst (save_stream_chunks cs sdir :: ('r, 'i) event list \<times> py_exception option))
        = numbered_names (parse_path sdir) ''chunk_'' 1 (1 + length cs)) \<and>
   (list_all decodes ps \<and> b64decode (chunk_image c) = Inl e \<and> cs = ps @ c # qs \<longrightarrow>
      snd (save_stream_chunks cs sdir :: ('r, 'i) event list \<times> py_exception option) = Some e \<and>
      length (written_paths
                (fst (save_stream_chunks cs sdir :: ('r, 'i) event list \<times> py_exception option)))
        = length ps)"
proof -
  let ?dir = "parse_path sdir"
  let ?r = "save_stream_chunks cs sdir :: ('r, 'i) event list \<times> py_exception option"
  let ?l = "save_chunks_loop ?dir 0 0 cs :: ('r, 'i) event list \<times> (py_exception + nat \<times> nat)"
  let ?empty = "Some (RuntimeError no_chunks_message)"
  have r: "?r = (case snd ?l of
                   Inl e \<Rightarrow> (Mkdir ?dir # fst ?l, Some e)
                 | Inr (t, k) \<Rightarrow>
                     if k = 0 then (Mkdir ?dir # fst ?l, ?empty)
                     else (Mkdir ?dir # fst ?l
                             @ [Success (StreamingComplete t), Success (SavedChunks k ?dir)], None))"
    by (simp add: save_stream_chunks_def Let_def)
  have all: "snd ?r = None \<and>
             written_paths (fst ?r) = numbered_names ?dir ''chunk_'' 1 (1 + length cs)"
    if ne: "cs \<noteq> []" and dec: "list_all decodes cs"
  proof -
    from save_chunks_loop_all[OF dec, where 'r = 'r and 'i = 'i, of ?dir 0 0]
    obtain t' where l: "snd ?l = Inr (t', length cs)"
      and w: "written_paths (fst ?l) = numbered_names ?dir ''chunk_'' 1 (1 + length cs)"
      by auto
    from ne have "length cs \<noteq> 0" by simp
    with l w show ?thesis by (simp add: r written_paths_append)
  qed
  have failure: "snd ?r = Some e \<and> length (written_paths (fst ?r)) = length ps"
    if dec: "list_all decodes ps" and bad: "b64decode (chunk_image c) = Inl e"
      and cs: "cs = ps @ c # qs"
  proof -
    have "snd ?l = Inl e \<and> length (written_paths (fst ?l)) = length ps"
      using save_chunks_loop_first_failure[OF dec bad, where 'r = 'r and 'i = 'i, of ?dir 0 0 qs]
      by (simp add: cs)
    then show ?thesis by (simp add: r)
  qed
  have nonempty: "snd ?r \<noteq> ?empty" if ne: "cs \<noteq> []"
  proof (cases "list_all decodes cs")
    case True
    with all[OF ne] show ?thesis by simp
  next
    case False
    then obtain ps d qs where split: "cs = ps @ d # qs" "list_all decodes ps" "\<not> decodes d"
      by (auto simp: list_all_iff dest!: split_list_first_prop[where P = "\<lambda>x. \<not> decodes x"])
    then obtain e' where bad: "b64decode (chunk_image d) = Inl e'"
      by (auto simp: decodes_def split: sum.splits)
    then obtain m where "e' = BinasciiError m" using b64decode_error by blast
    moreover
    have "snd (save_chunks_loop ?dir 0 0 cs :: ('r, 'i) event list \<times> (py_exception + nat \<times> nat))
            = Inl e'"
      using save_chunks_loop_first_failure[OF split(2) bad, where 'r = 'r and 'i = 'i,
          of ?dir 0 0 qs]
      by (simp add: split(1))
    ultimately show ?thesis by (simp add: r)
  qed
  have empty: "cs = [] \<Longrightarrow> ?r = ([Mkdir ?dir], ?empty)"
    by (simp add: save_stream_chunks_def)
  show ?thesis
    using empty nonempty all failure by auto
qed

theorem save_stream_chunks_outcome_witness:
  "list_all decodes [\<lparr>chunk_image = ''QUJD''\<rparr>, \<lparr>chunk_image = ''QQ==''\<rparr>] \<and>
   snd (save_stream_chunks [\<lparr>chunk_image = ''QUJD''\<rparr>, \<lparr>chunk_image = ''QQ==''\<rparr>]
          ''streaming_output'' :: (unit, unit) event list \<times> py_exception option) = None \<and>
   written_paths (fst (save_stream_chunks [\<lparr>chunk_image = ''QUJD''\<rparr>, \<lparr>chunk_image = ''QQ==''\<rparr>]
          ''streaming_output'' :: (unit, unit) event list \<times> py_exception option))
     = [''streaming_output/chunk_0001.png'', ''streaming_output/chunk_0002.png''] \<and>
   fst (save_stream_chunks [] ''streaming_output''
          :: (unit, unit) event list \<times> py_exception option)
     = [Mkdir (parse_path ''streaming_output'')] \<and>
   list_all decodes [\<lparr>chunk_image = ''QUJD''\<rparr>] \<and>
   b64decode (chunk_image \<lparr>chunk_image = ''A''\<rparr>)
     = Inl (BinasciiError ''Invalid base64-encoded string'') \<and>
   snd (save_stream_chunks ([\<lparr>chunk_image = ''QUJD''\<rparr>] @ \<lparr>chunk_image = ''A''\<rparr> # [])
          ''streaming_output'' :: (unit, unit) event list \<times> py_exception option)
     = Some (BinasciiError ''Invalid base64-encoded string'')"
proof -
  have h1: "list_all decodes [\<lparr>chunk_image = ''QUJD''\<rparr>, \<lparr>chunk_image = ''QQ==''\<rparr>]"
    by code_simp
  have h2: "list_all decodes [\<lparr>chunk_image = ''QUJD''\<rparr>]"
    by code_simp
  have h3: "b64decode (chunk_image \<lparr>chunk_image = ''A''\<rparr>)
              = Inl (BinasciiError ''Invalid base64-encoded string'')"
    by code_simp
  have names: "numbered_names (parse_path ''streaming_output'') ''chunk_''
                 (Suc 0) (Suc (Suc (Suc 0)))
                 = [''streaming_output/chunk_0001.png'', ''streaming_output/chunk_0002.png'']"
    by code_simp
  show ?thesis
    using h1 h2 h3 names
      save_stream_chunks_outcome[where 'r = unit and 'i = unit,
        of "[\<lparr>chunk_image = ''QUJD''\<rparr>, \<lparr>chunk_image = ''QQ==''\<rparr>]" "''streaming_output''"
           "[]" "\<lparr>chunk_image = ''A''\<rparr>" "BinasciiError ''Invalid base64-encoded string''" "[]"]
      save_stream_chunks_outcome[where 'r = unit and 'i = unit,
        of "[]" "''streaming_output''"
           "[]" "\<lparr>chunk_image = ''A''\<rparr>" "BinasciiError ''Invalid base64-encoded string''" "[]"]
      save_stream_chunks_outcome[where 'r = unit and 'i = unit,
        of "[\<lparr>chunk_image = ''QUJD''\<rparr>] @ \<lparr>chunk_image = ''A''\<rparr> # []" "''streaming_output''"
           "[\<lparr>chunk_image = ''QUJD''\<rparr>]" "\<lparr>chunk_image = ''A''\<rparr>"
           "BinasciiError ''Invalid base64-encoded string''" "[]"]
    by simp
qed

theorem save_stream_chunks_decode_counterexample:
  "length [\<lparr>chunk_image = ''QUJD''\<rparr>, \<lparr>chunk_image = ''A''\<rparr>] = 2 \<and>
   snd (save_stream_chunks [\<lparr>chunk_image = ''QUJD''\<rparr>, \<lparr>chunk_image = ''A''\<rparr>]
          ''streaming_output'' :: (unit, unit) event list \<times> py_exception option)
     = Some (BinasciiError ''Invalid base64-encoded string'') \<and>
   written_paths (fst (save_stream_chunks [\<lparr>chunk_image = ''QUJD''\<rparr>, \<lparr>chunk_image = ''A''\<rparr>]
          ''streaming_output'' :: (unit, unit) event list \<times> py_exception option))
     = [''streaming_output/chunk_0001.png'']"
  by code_simp

section \<open>Properties of the request pipeline\<close>

lemma normalize_quiet:
  "calls (snd (normalize_low_level_stream_mode pl b)) = [] \<and>
   started (snd (normalize_low_level_stream_mode pl b)) = [] \<and>
   saved_paths (snd (normalize_low_level_stream_mode pl b)) = [] \<and>
   written_paths (snd (normalize_low_level_stream_mode pl b)) = []"
  by (simp add: normalize_low_level_stream_mode_def Let_def split: option.splits)

lemma stream_in_payload_spec:
  "(case as_object_dict (dict_get pl1 ''parameters'') of None \<Rightarrow> False
    | Some d \<Rightarrow> dict_has d ''stream'') = spec_declares_stream pl1"
  by (auto simp: spec_declares_stream_def as_object_dict_def dict_get_def dict_has_def
      split: option.splits json.splits)

text \<open>Every run announces exactly one path, and calls no entry point but that path's.\<close>

lemma started_body:
  "started (fst (request_json_body F K a pl)) =
     [if is_low_level pl
      then (if stream a \<or> spec_declares_stream (sanitize_low_level_payload F pl)
            then StartLowLevelStream else StartLowLevelSingle)
      else if stream a then StartHighLevelStream else StartHighLevelSingle]"
  by (simp add: request_json_body_def Let_def stream_in_payload_spec started_append
      normalize_quiet save_stream_chunks_quiet save_images_quiet start_messages_def
      split: sum.splits)

lemma calls_body:
  "\<forall>c \<in> set (calls (fst (request_json_body F K a pl))).
     fst c = (if is_low_level pl
      then (if stream a \<or> spec_declares_stream (sanitize_low_level_payload F pl)
            then ApiGenerateStream else ApiGenerate)
      else if stream a then ImageGenerateStream else ImageGenerate)"
  by (simp add: request_json_body_def Let_def stream_in_payload_spec calls_append
      normalize_quiet save_stream_chunks_quiet save_images_quiet
      split: sum.splits)

lemma started_pipeline:
  "started (fst (generate_from_request_json F K a pl)) = started (fst (request_json_body F K a pl))"
  by (simp add: generate_from_request_json_def Let_def started_append
      split: option.splits py_exception.splits)

lemma calls_pipeline:
  "calls (fst (generate_from_request_json F K a pl)) = calls (fst (request_json_body F K a pl))"
  by (simp add: generate_from_request_json_def Let_def calls_append
      split: option.splits py_exception.splits)

lemma body_validation_failure:
  assumes "reached_validation F K a pl = Inl errs"
  shows "snd (request_json_body F K a pl) = Some (ValidationError errs) \<and>
         fst (request_json_body F K a pl) \<noteq> [] \<and>
         calls (fst (request_json_body F K a pl)) = [] \<and>
         saved_paths (fst (request_json_body F K a pl)) = [] \<and>
         written_paths (fst (request_json_body F K a pl)) = []"
proof (cases "is_low_level pl")
  case low: True
  show ?thesis
  proof (cases "stream a \<or> spec_declares_stream (sanitize_low_level_payload F pl)")
    case True
    with low assms show ?thesis
      by (simp add: reached_validation_def request_json_body_def Let_def stream_in_payload_spec
          calls_append saved_paths_append written_paths_append normalize_quiet)
  next
    case False
    with low assms show ?thesis
      by (simp add: reached_validation_def request_json_body_def Let_def stream_in_payload_spec
          calls_append saved_paths_append written_paths_append normalize_quiet)
  qed
next
  case high: False
  with assms show ?thesis
    by (cases "stream a") (simp_all add: reached_validation_def request_json_body_def)
qed

lemma spec_classify_low: "spec_classify pl = LOW_LEVEL \<longleftrightarrow> is_low_level pl"
  by (auto simp: spec_classify_def is_low_level_def dict_get_def dict_has_def
      split: option.splits json.splits)

lemma spec_classify_high: "spec_classify pl = HIGH_LEVEL \<longleftrightarrow> \<not> is_low_level pl"
  using spec_classify_low[of pl] by (cases "spec_classify pl") simp_all

text \<open>
  C4. The test of the code is the rule of the specification: a document is treated as
  low-level exactly when it has a \<^verbatim>\<open>parameters\<close> mapping and an \<^verbatim>\<open>input\<close> or an
  \<^verbatim>\<open>action\<close> key, and the path the run announces is a low-level one for those
  documents and a high-level one for all others.
\<close>

theorem request_classification:
  "(spec_classify pl = LOW_LEVEL \<longleftrightarrow> is_low_level pl) \<and>
   (spec_classify pl = LOW_LEVEL \<longleftrightarrow>
      started (fst (generate_from_request_json F K a pl))
        \<in> {[StartLowLevelStream], [StartLowLevelSingle]}) \<and>
   (spec_classify pl = HIGH_LEVEL \<longleftrightarrow>
      started (fst (generate_from_request_json F K a pl))
        \<in> {[StartHighLevelStream], [StartHighLevelSingle]})"
  by (simp add: spec_classify_low spec_classify_high started_pipeline started_body)

theorem request_classification_witness:
  "started (fst (generate_from_request_json example_fields example_collaborators
       (parser_defaults example_constants)
       [(''prompt'', JStr ''cat''), (''model'', JStr ''nai-diffusion-4-5-full''),
        (''parameters'', JObj [(''steps'', JInt 60)])]))
     \<in> {[StartHighLevelStream], [StartHighLevelSingle]} \<and>
   started (fst (generate_from_request_json example_fields example_collaborators
       (parser_defaults example_constants)
       [(''input'', JStr ''cat''), (''parameters'', JInt 3)]))
     \<in> {[StartHighLevelStream], [StartHighLevelSingle]} \<and>
   started (fst (generate_from_request_json example_fields example_collaborators
       (parser_defaults example_constants)
       [(''action'', JStr ''generate''), (''parameters'', JObj [])]))
     \<in> {[StartLowLevelStream], [StartLowLevelSingle]}"
proof -
  have h1: "spec_classify [(''prompt'', JStr ''cat''), (''model'', JStr ''nai-diffusion-4-5-full''),
              (''parameters'', JObj [(''steps'', JInt 60)])] = HIGH_LEVEL"
    by code_simp
  have h2: "spec_classify [(''input'', JStr ''cat''), (''parameters'', JInt 3)] = HIGH_LEVEL"
    by code_simp
  have h3: "spec_classify [(''action'', JStr ''generate''), (''parameters'', JObj [])] = LOW_LEVEL"
    by code_simp
  show ?thesis
    using h1 h2 h3
      request_classification[of
        "[(''prompt'', JStr ''cat''), (''model'', JStr ''nai-diffusion-4-5-full''),
          (''parameters'', JObj [(''steps'', JInt 60)])]"
        example_fields example_collaborators "parser_defaults example_constants"]
      request_classification[of "[(''input'', JStr ''cat''), (''parameters'', JInt 3)]"
        example_fields example_collaborators "parser_defaults example_constants"]
      request_classification[of "[(''action'', JStr ''generate''), (''parameters'', JObj [])]"
        example_fields example_collaborators "parser_defaults example_constants"]
    by blast
qed

text \<open>
  C7. When the validation that the run reaches for a document fails, the run announces
  its path, reports the offending fields as its last message and ends with status 1; it
  has called no entry point of the client and written nothing.
\<close>

theorem validation_failure_aborts_before_dispatch:
  assumes "reached_validation F K a pl = Inl errs"
  shows "calls (fst (generate_from_request_json F K a pl)) = [] \<and>
         snd (generate_from_request_json F K a pl) = Exited 1 \<and>
         last (fst (generate_from_request_json F K a pl)) = Fail (ValidationFailed errs) \<and>
         saved_paths (fst (generate_from_request_json F K a pl)) = [] \<and>
         written_paths (fst (generate_from_request_json F K a pl)) = []"
  using body_validation_failure[OF assms]
  by (simp add: generate_from_request_json_def Let_def calls_append saved_paths_append
      written_paths_append)

theorem validation_failure_aborts_before_dispatch_witness:
  "reached_validation example_fields example_collaborators (parser_defaults example_constants)
       [(''prompt'', JStr ''cat''), (''model'', JStr ''nai-diffusion-4-5-full''),
        (''steps'', JInt 60)] = Inl [''steps''] \<and>
   calls (fst (generate_from_request_json example_fields example_collaborators
       (parser_defaults example_constants)
       [(''prompt'', JStr ''cat''), (''model'', JStr ''nai-diffusion-4-5-full''),
        (''steps'', JInt 60)])) = [] \<and>
   snd (generate_from_request_json example_fields example_collaborators
       (parser_defaults example_constants)
       [(''prompt'', JStr ''cat''), (''model'', JStr ''nai-diffusion-4-5-full''),
        (''steps'', JInt 60)]) = Exited 1 \<and>
   reached_validation example_fields example_collaborators (parser_defaults example_constants)
       [(''input'', JStr ''cat''), (''parameters'', JObj [(''steps'', JInt 60)])]
     = Inl [''steps''] \<and>
   calls (fst (generate_from_request_json example_fields example_collaborators
       (parser_defaults example_constants)
       [(''input'', JStr ''cat''), (''parameters'', JObj [(''steps'', JInt 60)])])) = [] \<and>
   last (fst (generate_from_request_json example_fields example_collaborators
       (parser_defaults example_constants)
       [(''input'', JStr ''cat''), (''parameters'', JObj [(''steps'', JInt 60)])]))
     = Fail (ValidationFailed [''steps''])"
proof -
  have h1: "reached_validation example_fields example_collaborators
       (parser_defaults example_constants)
       [(''prompt'', JStr ''cat''), (''model'', JStr ''nai-diffusion-4-5-full''),
        (''steps'', JInt 60)] = Inl [''steps'']"
    by code_simp
  have h2: "reached_validation example_fields example_collaborators
       (parser_defaults example_constants)
       [(''input'', JStr ''cat''), (''parameters'', JObj [(''steps'', JInt 60)])]
     = Inl [''steps'']"
    by code_simp
  show ?thesis
    using h1 h2 validation_failure_aborts_before_dispatch[OF h1]
      validation_failure_aborts_before_dispatch[OF h2]
    by simp
qed

text \<open>
  C9. For a low-level document the run takes the streaming path exactly when the caller
  asked for streaming or the parameters of the sanitized document have a
  \<^verbatim>\<open>stream\<close> key, whatever its value; otherwise it takes the single-response path.
  The entry point it calls, if it gets that far, is the one of that path.
\<close>

theorem low_level_streaming_trigger:
  assumes "is_low_level pl"
  shows "(started (fst (generate_from_request_json F K a pl)) = [StartLowLevelStream]
            \<longleftrightarrow> stream a \<or> spec_declares_stream (sanitize_low_level_payload F pl)) \<and>
         (started (fst (generate_from_request_json F K a pl)) = [StartLowLevelSingle]
            \<longleftrightarrow> \<not> (stream a \<or> spec_declares_stream (sanitize_low_level_payload F pl))) \<and>
         (\<forall>c \<in> set (calls (fst (generate_from_request_json F K a pl))).
            fst c = (if stream a \<or> spec_declares_stream (sanitize_low_level_payload F pl)
                     then ApiGenerateStream else ApiGenerate))"
  using assms calls_body[of F K a pl]
  by (simp add: started_pipeline started_body calls_pipeline)

theorem low_level_streaming_trigger_witness:
  "is_low_level [(''input'', JStr ''cat''), (''parameters'', JObj [(''stream'', JNull)])] \<and>
   \<not> stream (parser_defaults example_constants) \<and>
   started (fst (generate_from_request_json example_fields example_collaborators
       (parser_defaults example_constants)
       [(''input'', JStr ''cat''), (''parameters'', JObj [(''stream'', JNull)])]))
     = [StartLowLevelStream] \<and>
   is_low_level [(''input'', JStr ''cat''), (''parameters'', JObj [(''steps'', JInt 28)])] \<and>
   started (fst (generate_from_request_json example_fields example_collaborators
       (parser_defaults example_constants)
       [(''input'', JStr ''cat''), (''parameters'', JObj [(''steps'', JInt 28)])]))
     = [StartLowLevelSingle] \<and>
   started (fst (generate_from_request_json example_fields example_collaborators
       ((parser_defaults example_constants)\<lparr>stream := True\<rparr>)
       [(''input'', JStr ''cat''), (''parameters'', JObj [(''steps'', JInt 28)])]))
     = [StartLowLevelStream] \<and>
   map fst (calls (fst (generate_from_request_json example_fields example_collaborators
       (parser_defaults example_constants)
       [(''input'', JStr ''cat''), (''parameters'', JObj [(''stream'', JNull)])])))
     = [ApiGenerateStream] \<and>
   map fst (calls (fst (generate_from_request_json example_fields example_collaborators
       (parser_defaults example_constants)
       [(''input'', JStr ''cat''), (''parameters'', JObj [(''steps'', JInt 28)])])))
     = [ApiGenerate]"
proof -
  have c1: "map fst (calls (fst (generate_from_request_json example_fields example_collaborators
       (parser_defaults example_constants)
       [(''input'', JStr ''cat''), (''parameters'', JObj [(''stream'', JNull)])])))
     = [ApiGenerateStream]"
    by code_simp
  have c2: "map fst (calls (fst (generate_from_request_json example_fields example_collaborators
       (parser_defaults example_constants)
       [(''input'', JStr ''cat''), (''parameters'', JObj [(''steps'', JInt 28)])])))
     = [ApiGenerate]"
    by code_simp
  have l1: "is_low_level [(''input'', JStr ''cat''), (''parameters'', JObj [(''stream'', JNull)])]"
    by code_simp
  have l2: "is_low_level [(''input'', JStr ''cat''), (''parameters'', JObj [(''steps'', JInt 28)])]"
    by code_simp
  have s1: "spec_declares_stream (sanitize_low_level_payload example_fields
              [(''input'', JStr ''cat''), (''parameters'', JObj [(''stream'', JNull)])])"
    by code_simp
  have s2: "\<not> spec_declares_stream (sanitize_low_level_payload example_fields
              [(''input'', JStr ''cat''), (''parameters'', JObj [(''steps'', JInt 28)])])"
    by code_simp
  have f: "\<not> stream (parser_defaults example_constants)"
    by (simp add: parser_defaults_def)
  show ?thesis
    using l1 l2 s1 s2 f c1 c2
      low_level_streaming_trigger[OF l1, of example_fields example_collaborators
        "parser_defaults example_constants"]
      low_level_streaming_trigger[OF l2, of example_fields example_collaborators
        "parser_defaults example_constants"]
      low_level_streaming_trigger[OF l2, of example_fields example_collaborators
        "(parser_defaults example_constants)\<lparr>stream := True\<rparr>"]
    by simp
qed

end
